theory Spec2Isabelle
  imports Complex_Main "HOL-Library.Word"
begin

section \<open>Python values, errors and tensors\<close>

text \<open>
  The exceptions that the modelled code paths of \<^verbatim>\<open>beta/noise_classes.py\<close> can raise.
  A raise is a value \<open>Inl e\<close>; the state reached at the raise is returned beside it, since
  the mutations done before an exception stay in place.
\<close>

datatype py_error =
  NotImplementedError | AttributeError | TypeError | IndexError | ValueError | RuntimeError
  | ZeroDivisionError | Exception

text \<open>
  A tensor carries the metadata that \<^verbatim>\<open>like\<close> and \<^verbatim>\<open>NoiseGenerator.__init__\<close> read
  (shape, dtype, layout, device) and its elements in row-major order. Elements are
  real numbers: rounding of the floating-point dtype is outside the model.
\<close>

record tensor =
  shape :: "nat list"
  dtype :: string
  layout :: string
  device :: string
  vals :: "real list"

definition numel :: "nat list \<Rightarrow> nat" where
  "numel s = prod_list s"

text \<open>\<^verbatim>\<open>x.mean()\<close> and \<^verbatim>\<open>x.std()\<close> (Bessel-corrected, the default of torch) over all elements.\<close>

definition mean :: "real list \<Rightarrow> real" where
  "mean xs = sum_list xs / real (length xs)"

definition std :: "real list \<Rightarrow> real" where
  "std xs = sqrt (sum_list (map (\<lambda>x. (x - mean xs)\<^sup>2) xs) / (real (length xs) - 1))"

text \<open>\<^verbatim>\<open>def normalize(x): return (x - x.mean()) / x.std()\<close>\<close>

definition normalize :: "real list \<Rightarrow> real list" where
  "normalize xs = map (\<lambda>x. (x - mean xs) / std xs) xs"

text \<open>\<^verbatim>\<open>x / x.std()\<close>, the return expression of the generators that leave the mean alone.\<close>

definition div_std :: "real list \<Rightarrow> real list" where
  "div_std xs = map (\<lambda>x. x / std xs) xs"

section \<open>NoiseGenerator.update\<close>

text \<open>
  \<^verbatim>\<open>
  def update(self, **kwargs):
      updated_values = []
      for attribute_name, value in kwargs.items():
          if value is not None:
              setattr(self, attribute_name, value)
          updated_values.append(getattr(self, attribute_name))
      return tuple(updated_values)
  \<close>
  The object is its attribute dictionary; \<^verbatim>\<open>kwargs\<close> is the list of its items in order
  (a dict, so its keys are distinct); a value \<open>None\<close> is Python's \<^verbatim>\<open>None\<close>. \<^verbatim>\<open>getattr\<close> of a
  name the object does not have raises AttributeError, and the loop stops there with the
  assignments made so far in place.
\<close>

fun update_loop ::
  "(string \<times> 'v option) list \<Rightarrow> (string \<rightharpoonup> 'v) \<Rightarrow> 'v list \<Rightarrow> (py_error + 'v list) \<times> (string \<rightharpoonup> 'v)"
where
  "update_loop [] self updated_values = (Inr updated_values, self)"
| "update_loop ((attribute_name, value) # items) self updated_values =
     (let self' = (case value of None \<Rightarrow> self | Some v \<Rightarrow> self(attribute_name \<mapsto> v))
      in case self' attribute_name of
           None \<Rightarrow> (Inl AttributeError, self')
         | Some cur \<Rightarrow> update_loop items self' (updated_values @ [cur]))"

definition update ::
  "(string \<times> 'v option) list \<Rightarrow> (string \<rightharpoonup> 'v) \<Rightarrow> (py_error + 'v list) \<times> (string \<rightharpoonup> 'v)"
where
  "update kwargs self = update_loop kwargs self []"

text \<open>
  What \<^verbatim>\<open>self.update(name=value)\<close> leaves in an attribute that the object already has:
  the generators' \<^verbatim>\<open>__call__\<close> methods use it on their own, typed parameters.
\<close>

definition merge :: "'a option \<Rightarrow> 'a \<Rightarrow> 'a" where
  "merge value cur = (case value of None \<Rightarrow> cur | Some v \<Rightarrow> v)"

section \<open>Tensor indexing and broadcasting\<close>

text \<open>Row-major offsets: the multi-index of a flat position and back.\<close>

fun unravel :: "nat list \<Rightarrow> nat \<Rightarrow> nat list" where
  "unravel [] i = []"
| "unravel (d # ds) i = (i div prod_list ds) # unravel ds (i mod prod_list ds)"

fun ravel :: "nat list \<Rightarrow> nat list \<Rightarrow> nat" where
  "ravel (d # ds) (j # js) = j * prod_list ds + ravel ds js"
| "ravel _ _ = 0"

text \<open>
  The broadcasting rule of torch for an in-place operation \<^verbatim>\<open>a += b\<close>: the shape of \<open>b\<close>,
  aligned at the last dimension, must agree with the shape of \<open>a\<close> wherever it is not 1;
  otherwise the operation raises RuntimeError.
\<close>

definition broadcastable :: "nat list \<Rightarrow> nat list \<Rightarrow> bool" where
  "broadcastable src target =
     (length src \<le> length target
      \<and> list_all2 (\<lambda>d e. d = 1 \<or> d = e) src (drop (length target - length src) target))"

definition expand_to :: "nat list \<Rightarrow> nat list \<Rightarrow> real list \<Rightarrow> real list" where
  "expand_to target src vs =
     map (\<lambda>i. vs ! ravel src (map2 (\<lambda>d j. if d = 1 then 0 else j) src
                                 (drop (length target - length src) (unravel target i))))
         [0..<prod_list target]"

definition iadd :: "tensor \<Rightarrow> nat list \<times> real list \<Rightarrow> py_error + tensor" where
  "iadd a b =
     (if broadcastable (fst b) (shape a)
      then Inr (a\<lparr>vals := map2 (+) (vals a) (expand_to (shape a) (fst b) (snd b))\<rparr>)
      else Inl RuntimeError)"

text \<open>\<^verbatim>\<open>torch.cat(tensors, axis=0)\<close> of tensors that agree in every other dimension.\<close>

definition cat0 :: "tensor list \<Rightarrow> tensor" where
  "cat0 ts = (hd ts)\<lparr>shape := sum_list (map (hd \<circ> shape) ts) # tl (shape (hd ts)),
                     vals := concat (map vals ts)\<rparr>"

text \<open>\<^verbatim>\<open>x[i:i+1]\<close>: the batch items from \<open>i\<close> up to, not including, \<open>i + 1\<close>.\<close>

definition slice0 :: "tensor \<Rightarrow> nat \<Rightarrow> tensor" where
  "slice0 x i =
     (let row = prod_list (tl (shape x)); n = min 1 (hd (shape x) - i)
      in x\<lparr>shape := n # tl (shape x), vals := take (n * row) (drop (i * row) (vals x))\<rparr>)"

text \<open>The batch items of a tensor: its elements in runs of one item each.\<close>

fun chunks :: "nat \<Rightarrow> nat \<Rightarrow> 'a list \<Rightarrow> 'a list list" where
  "chunks 0 n xs = []"
| "chunks (Suc b) n xs = take n xs # chunks b n (drop n xs)"

definition batch_items :: "tensor \<Rightarrow> real list list" where
  "batch_items x = chunks (hd (shape x)) (prod_list (tl (shape x))) (vals x)"

section \<open>Random number generators\<close>

text \<open>
  A \<^verbatim>\<open>torch.Generator\<close> is deterministic: what it yields is fixed by the seed it was last
  seeded with (\<^verbatim>\<open>initial_seed()\<close>) and by how many values it has handed out since. The
  values themselves are not computed here: a \<open>sampler\<close> gives, for each distribution that
  the module draws from, the value found at a position of the stream of a seed, and every
  theorem holds for any such sampler. The default generator of the process, read and
  written by \<^verbatim>\<open>torch.random.get_rng_state\<close>, \<^verbatim>\<open>set_rng_state\<close> and \<^verbatim>\<open>torch.manual_seed\<close>,
  is a generator too.
\<close>

record generator =
  initial_seed :: "64 word"
  offset :: nat

record sampler =
  normal_at :: "64 word \<Rightarrow> nat \<Rightarrow> real"
  uniform_at :: "64 word \<Rightarrow> nat \<Rightarrow> real"
  laplace_at :: "real \<Rightarrow> real \<Rightarrow> 64 word \<Rightarrow> nat \<Rightarrow> real"
  studentt_at :: "real \<Rightarrow> real \<Rightarrow> real \<Rightarrow> 64 word \<Rightarrow> nat \<Rightarrow> real"

text \<open>A generator that has just been seeded with \<open>s\<close> and has handed out nothing yet.\<close>

definition seeded :: "64 word \<Rightarrow> generator" where
  "seeded s = \<lparr>initial_seed = s, offset = 0\<rparr>"

text \<open>
  \<^verbatim>\<open>Generator.manual_seed(seed)\<close> and \<^verbatim>\<open>torch.manual_seed(seed)\<close> take a Python integer. The
  seed of a generator is an unsigned 64-bit number: an integer from \<^verbatim>\<open>-2**63\<close> up to
  \<^verbatim>\<open>2**64 - 1\<close> is accepted, a negative one being read in two's complement (\<^verbatim>\<open>-1\<close> is the
  seed \<^verbatim>\<open>2**64 - 1\<close>), and any other integer raises RuntimeError. \<^verbatim>\<open>initial_seed()\<close> returns
  the unsigned number, \<open>uint (initial_seed g)\<close>.
\<close>

definition manual_seed :: "int \<Rightarrow> py_error + generator" where
  "manual_seed seed =
     (if - (2 ^ 63) \<le> seed \<and> seed < 2 ^ 64 then Inr (seeded (word_of_int seed))
      else Inl RuntimeError)"

definition draws :: "(64 word \<Rightarrow> nat \<Rightarrow> real) \<Rightarrow> generator \<Rightarrow> nat \<Rightarrow> real list \<times> generator" where
  "draws f g n = (map (f (initial_seed g)) [offset g..<offset g + n], g\<lparr>offset := offset g + n\<rparr>)"

section \<open>Library functions taken as parameters\<close>

text \<open>
  The functions of torch, pywt, opensimplex, comfy and the sibling module \<^verbatim>\<open>latents\<close> whose
  results the module only passes on. They are parameters of the model, and every theorem
  holds for any of them.
  \<^item> \<open>interpolate mode in_shape out_size vs\<close>: the elements of
    \<^verbatim>\<open>F.interpolate(x, size=out_size, mode=mode)\<close> (also \<^verbatim>\<open>nn.Upsample\<close>);
  \<^item> \<open>fftn shape vs\<close>, \<open>ifftn shape zs\<close>: \<^verbatim>\<open>torch.fft.fftn\<close>, \<^verbatim>\<open>torch.fft.ifftn\<close>;
  \<^item> \<open>wavelet_roundtrip wavelet shape vs\<close>: the shape and the elements of the array
    \<^verbatim>\<open>pywt.waverecn(pywt.wavedecn(x, ...), ...)\<close>, whose shape need not be that of \<open>x\<close>;
  \<^item> \<open>noise3array seed w h c\<close>: \<^verbatim>\<open>OpenSimplex(seed).noise3array(arange(w), arange(h), arange(c))\<close>;
  \<^item> \<open>brownian_tree x sigma_min sigma_max seed cpu sigma sigma_next\<close>:
    \<^verbatim>\<open>BrownianTreeNoiseSampler(x, sigma_min, sigma_max, seed=seed, cpu=cpu)(sigma, sigma_next)\<close>;
  \<^item> \<open>slerp a b t\<close>: \<^verbatim>\<open>latents.slerp\<close>.
\<close>

record extern =
  interpolate :: "string \<Rightarrow> nat list \<Rightarrow> nat list \<Rightarrow> real list \<Rightarrow> real list"
  fftn :: "nat list \<Rightarrow> real list \<Rightarrow> complex list"
  ifftn :: "nat list \<Rightarrow> complex list \<Rightarrow> complex list"
  wavelet_roundtrip :: "string \<Rightarrow> nat list \<Rightarrow> real list \<Rightarrow> nat list \<times> real list"
  noise3array :: "int \<Rightarrow> nat \<Rightarrow> nat \<Rightarrow> nat \<Rightarrow> real list"
  brownian_tree ::
    "tensor \<Rightarrow> real option \<Rightarrow> real option \<Rightarrow> int \<Rightarrow> bool \<Rightarrow> real option \<Rightarrow> real option \<Rightarrow> tensor"
  slerp :: "tensor \<Rightarrow> tensor \<Rightarrow> real \<Rightarrow> tensor"

section \<open>The NoiseGenerator base class\<close>

text \<open>
  The classes of the module. An instance is one record for all of them: the attributes
  that \<^verbatim>\<open>NoiseGenerator.__init__\<close> sets, \<open>self_class\<close> for the class of the instance, and
  the algorithm parameters that the subclasses set through \<^verbatim>\<open>update\<close>. An attribute that
  a Python instance of some class does not have holds a placeholder that no method of
  that class reads. \<open>self_noise\<close> is the seed of the OpenSimplex object of a simplex
  generator. The attribute \<^verbatim>\<open>epsilon\<close> that the Cascade-B constructor stores is never read
  and is left out.
\<close>

datatype noise_class =
  NoiseGenerator | BrownianNoiseGenerator | FractalNoiseGenerator | SimplexNoiseGenerator
  | HiresPyramidNoiseGenerator | PyramidNoiseGenerator | InterpolatedPyramidNoiseGenerator
  | CascadeBPyramidNoiseGenerator | UniformNoiseGenerator | GaussianNoiseGenerator
  | GaussianBackwardsNoiseGenerator | LaplacianNoiseGenerator | StudentTNoiseGenerator
  | WaveletNoiseGenerator | PerlinNoiseGenerator

record noise_generator =
  self_class :: noise_class
  self_x :: tensor
  self_size :: "nat list"
  self_dtype :: string
  self_layout :: string
  self_device :: string
  self_seed :: int
  self_last_seed :: int
  self_generator :: generator
  self_sigma_min :: "real option"
  self_sigma_max :: "real option"
  self_alpha :: real
  self_k :: real
  self_scale :: real
  self_discount :: real
  self_mode :: string
  self_levels :: int
  self_size_range :: "(int \<times> int) option"
  self_mean :: real
  self_std :: real
  self_loc :: real
  self_df :: real
  self_wavelet :: string
  self_detail :: real
  self_noise :: int

text \<open>
  \<^verbatim>\<open>torch.zeros(size, *, out=None, dtype=None, layout=torch.strided, device=None, ...)\<close>
  takes the size as its only positional argument: dtype, layout and device are
  keyword-only, and the argument parser of torch rejects a call that passes anything
  after a size tuple by position with TypeError. \<open>more_positional\<close> are the arguments
  that a call passes by position after the size.
\<close>

definition torch_zeros :: "nat list option \<Rightarrow> string option list \<Rightarrow> py_error + tensor" where
  "torch_zeros size_arg more_positional =
     (case (size_arg, more_positional) of
        (Some s, []) \<Rightarrow>
          Inr \<lparr>shape = s, dtype = ''float32'', layout = ''strided'', device = ''cpu'',
               vals = replicate (numel s) 0\<rparr>
      | _ \<Rightarrow> Inl TypeError)"

definition new_instance ::
  "tensor \<Rightarrow> nat list \<Rightarrow> string \<Rightarrow> string \<Rightarrow> string \<Rightarrow> int \<Rightarrow> generator
     \<Rightarrow> real option \<Rightarrow> real option \<Rightarrow> noise_generator"
where
  "new_instance x sz dt lay dev seed gen sigma_min sigma_max =
     \<lparr>self_class = NoiseGenerator, self_x = x, self_size = sz, self_dtype = dt,
      self_layout = lay, self_device = dev, self_seed = seed, self_last_seed = seed,
      self_generator = gen,
      self_sigma_min = sigma_min, self_sigma_max = sigma_max,
      self_alpha = 0, self_k = 0, self_scale = 0, self_discount = 0, self_mode = [],
      self_levels = 0, self_size_range = None, self_mean = 0, self_std = 0, self_loc = 0,
      self_df = 0, self_wavelet = [], self_detail = 0, self_noise = 0\<rparr>"

text \<open>
  \<^verbatim>\<open>
  def __init__(self, x=None, size=None, dtype=None, layout=None, device=None, seed=42,
               generator=None, sigma_min=None, sigma_max=None):
      self.seed = seed
      if x is not None:
          self.x = x; self.size = x.shape; self.dtype = x.dtype
          self.layout = x.layout; self.device = x.device
      else:
          self.x = torch.zeros(size, dtype, layout, device)
      if size is not None: self.size = size
      (the same for dtype, layout, device)
      self.sigma_max = ...; self.sigma_min = ...
      self.last_seed = seed
      if generator is None:
          self.generator = torch.Generator(device=self.device).manual_seed(seed)
      else:
          self.generator = generator
  \<close>
  Without a reference tensor the four values are handed to \<^verbatim>\<open>torch.zeros\<close> by position.
  Were that call to return, an attribute whose keyword is None would stay unset and
  reading it would raise AttributeError. Seeding the new generator is the last step, and
  it raises for a seed that is not a 64-bit number.
\<close>

definition NoiseGenerator_init ::
  "tensor option \<Rightarrow> nat list option \<Rightarrow> string option \<Rightarrow> string option \<Rightarrow> string option
     \<Rightarrow> int \<Rightarrow> generator option \<Rightarrow> real option \<Rightarrow> real option \<Rightarrow> py_error + noise_generator"
where
  "NoiseGenerator_init x size_kw dtype_kw layout_kw device_kw seed generator_kw sigma_min sigma_max =
     (let with_generator = (\<lambda>make.
            case (case generator_kw of None \<Rightarrow> manual_seed seed | Some g \<Rightarrow> Inr g) of
              Inl e \<Rightarrow> Inl e
            | Inr gen \<Rightarrow> Inr (make gen))
      in case x of
           Some xt \<Rightarrow>
             with_generator (\<lambda>gen.
               new_instance xt (merge size_kw (shape xt)) (merge dtype_kw (dtype xt))
                 (merge layout_kw (layout xt)) (merge device_kw (device xt))
                 seed gen sigma_min sigma_max)
         | None \<Rightarrow>
             (case torch_zeros size_kw [dtype_kw, layout_kw, device_kw] of
                Inl e \<Rightarrow> Inl e
              | Inr z \<Rightarrow>
                  (case (size_kw, dtype_kw, layout_kw, device_kw) of
                     (Some sz, Some dt, Some lay, Some dev) \<Rightarrow>
                       with_generator (\<lambda>gen.
                         new_instance z sz dt lay dev seed gen sigma_min sigma_max)
                   | _ \<Rightarrow> Inl AttributeError)))"

text \<open>\<^verbatim>\<open>def __call__(self): raise NotImplementedError("This method got clownsharked!")\<close>\<close>

definition NoiseGenerator_call :: "noise_generator \<Rightarrow> (py_error + tensor) \<times> noise_generator" where
  "NoiseGenerator_call self = (Inl NotImplementedError, self)"

text \<open>
  The subclass constructors: \<^verbatim>\<open>super().__init__(...)\<close>, then \<^verbatim>\<open>self.update(...)\<close> with the
  parameters of the class, which are not None here.
\<close>

definition subclass_init ::
  "noise_class \<Rightarrow> (noise_generator \<Rightarrow> noise_generator) \<Rightarrow> py_error + noise_generator
     \<Rightarrow> py_error + noise_generator"
where
  "subclass_init cls set_params base =
     (case base of Inl e \<Rightarrow> Inl e | Inr self \<Rightarrow> Inr (set_params (self\<lparr>self_class := cls\<rparr>)))"

definition BrownianNoiseGenerator_init :: "py_error + noise_generator \<Rightarrow> py_error + noise_generator" where
  "BrownianNoiseGenerator_init = subclass_init BrownianNoiseGenerator (\<lambda>self. self)"

definition FractalNoiseGenerator_init ::
  "real \<Rightarrow> real \<Rightarrow> real \<Rightarrow> py_error + noise_generator \<Rightarrow> py_error + noise_generator" where
  "FractalNoiseGenerator_init alpha k scale =
     subclass_init FractalNoiseGenerator
       (\<lambda>self. self\<lparr>self_alpha := alpha, self_k := k, self_scale := scale\<rparr>)"

definition SimplexNoiseGenerator_init ::
  "real \<Rightarrow> py_error + noise_generator \<Rightarrow> py_error + noise_generator" where
  "SimplexNoiseGenerator_init scale =
     subclass_init SimplexNoiseGenerator
       (\<lambda>self. self\<lparr>self_noise := self_seed self, self_scale := scale\<rparr>)"

definition HiresPyramidNoiseGenerator_init ::
  "real \<Rightarrow> string \<Rightarrow> py_error + noise_generator \<Rightarrow> py_error + noise_generator" where
  "HiresPyramidNoiseGenerator_init discount mode =
     subclass_init HiresPyramidNoiseGenerator
       (\<lambda>self. self\<lparr>self_discount := discount, self_mode := mode\<rparr>)"

definition PyramidNoiseGenerator_init ::
  "real \<Rightarrow> string \<Rightarrow> py_error + noise_generator \<Rightarrow> py_error + noise_generator" where
  "PyramidNoiseGenerator_init discount mode =
     subclass_init PyramidNoiseGenerator
       (\<lambda>self. self\<lparr>self_discount := discount, self_mode := mode\<rparr>)"

definition InterpolatedPyramidNoiseGenerator_init ::
  "real \<Rightarrow> string \<Rightarrow> py_error + noise_generator \<Rightarrow> py_error + noise_generator" where
  "InterpolatedPyramidNoiseGenerator_init discount mode =
     subclass_init InterpolatedPyramidNoiseGenerator
       (\<lambda>self. self\<lparr>self_discount := discount, self_mode := mode\<rparr>)"

definition CascadeBPyramidNoiseGenerator_init ::
  "int \<Rightarrow> string \<Rightarrow> int \<times> int \<Rightarrow> py_error + noise_generator \<Rightarrow> py_error + noise_generator" where
  "CascadeBPyramidNoiseGenerator_init levels mode size_range =
     subclass_init CascadeBPyramidNoiseGenerator
       (\<lambda>self. self\<lparr>self_levels := levels, self_mode := mode,
                     self_size_range := Some size_range\<rparr>)"

definition UniformNoiseGenerator_init ::
  "real \<Rightarrow> real \<Rightarrow> py_error + noise_generator \<Rightarrow> py_error + noise_generator" where
  "UniformNoiseGenerator_init mean_kw scale =
     subclass_init UniformNoiseGenerator
       (\<lambda>self. self\<lparr>self_mean := mean_kw, self_scale := scale\<rparr>)"

definition GaussianNoiseGenerator_init ::
  "real \<Rightarrow> real \<Rightarrow> py_error + noise_generator \<Rightarrow> py_error + noise_generator" where
  "GaussianNoiseGenerator_init mean_kw std_kw =
     subclass_init GaussianNoiseGenerator
       (\<lambda>self. self\<lparr>self_mean := mean_kw, self_std := std_kw\<rparr>)"

definition GaussianBackwardsNoiseGenerator_init ::
  "real \<Rightarrow> real \<Rightarrow> py_error + noise_generator \<Rightarrow> py_error + noise_generator" where
  "GaussianBackwardsNoiseGenerator_init mean_kw std_kw =
     subclass_init GaussianBackwardsNoiseGenerator
       (\<lambda>self. self\<lparr>self_mean := mean_kw, self_std := std_kw\<rparr>)"

definition LaplacianNoiseGenerator_init ::
  "real \<Rightarrow> real \<Rightarrow> py_error + noise_generator \<Rightarrow> py_error + noise_generator" where
  "LaplacianNoiseGenerator_init loc scale =
     subclass_init LaplacianNoiseGenerator
       (\<lambda>self. self\<lparr>self_loc := loc, self_scale := scale\<rparr>)"

definition StudentTNoiseGenerator_init ::
  "real \<Rightarrow> real \<Rightarrow> real \<Rightarrow> py_error + noise_generator \<Rightarrow> py_error + noise_generator" where
  "StudentTNoiseGenerator_init loc scale df =
     subclass_init StudentTNoiseGenerator
       (\<lambda>self. self\<lparr>self_loc := loc, self_scale := scale, self_df := df\<rparr>)"

definition WaveletNoiseGenerator_init ::
  "string \<Rightarrow> py_error + noise_generator \<Rightarrow> py_error + noise_generator" where
  "WaveletNoiseGenerator_init wavelet =
     subclass_init WaveletNoiseGenerator (\<lambda>self. self\<lparr>self_wavelet := wavelet\<rparr>)"

definition PerlinNoiseGenerator_init ::
  "real \<Rightarrow> py_error + noise_generator \<Rightarrow> py_error + noise_generator" where
  "PerlinNoiseGenerator_init detail =
     subclass_init PerlinNoiseGenerator (\<lambda>self. self\<lparr>self_detail := detail\<rparr>)"

section \<open>Drawing tensors\<close>

definition new_tensor :: "noise_generator \<Rightarrow> nat list \<Rightarrow> real list \<Rightarrow> tensor" where
  "new_tensor self sz vs =
     \<lparr>shape = sz, dtype = self_dtype self, layout = self_layout self,
      device = self_device self, vals = vs\<rparr>"

text \<open>\<^verbatim>\<open>torch.randn(size, ..., generator=self.generator)\<close>; the generator object advances.\<close>

definition randn :: "sampler \<Rightarrow> noise_generator \<Rightarrow> nat list \<Rightarrow> tensor \<times> noise_generator" where
  "randn orc self sz =
     (let (vs, g) = draws (normal_at orc) (self_generator self) (numel sz)
      in (new_tensor self sz vs, self\<lparr>self_generator := g\<rparr>))"

text \<open>\<^verbatim>\<open>torch.rand(size, ..., generator=self.generator)\<close>\<close>

definition rand :: "sampler \<Rightarrow> noise_generator \<Rightarrow> nat list \<Rightarrow> tensor \<times> noise_generator" where
  "rand orc self sz =
     (let (vs, g) = draws (uniform_at orc) (self_generator self) (numel sz)
      in (new_tensor self sz vs, self\<lparr>self_generator := g\<rparr>))"

text \<open>
  \<^verbatim>\<open>if len(self.size) == 5: b, c, t, h, w = self.size  else: b, c, h, w = self.size\<close>.
  Unpacking a size of another length than 4 in the else branch raises ValueError.
  In the 4-D case the third component stands for \<^verbatim>\<open>t\<close>, which the classes that use it set
  to 1.
\<close>

definition unpack_size :: "nat list \<Rightarrow> py_error + bool \<times> nat \<times> nat \<times> nat \<times> nat \<times> nat" where
  "unpack_size s =
     (case s of
        [b, c, t, h, w] \<Rightarrow> Inr (True, b, c, t, h, w)
      | [b, c, h, w] \<Rightarrow> Inr (False, b, c, 1, h, w)
      | _ \<Rightarrow> Inl ValueError)"

text \<open>\<^verbatim>\<open>F.interpolate(x, size=out_size, mode=mode)\<close>: batch and channel stay, the rest is resized.\<close>

definition upsample :: "extern \<Rightarrow> string \<Rightarrow> nat list \<Rightarrow> tensor \<Rightarrow> tensor" where
  "upsample ext mode out_size x =
     x\<lparr>shape := take 2 (shape x) @ out_size,
       vals := interpolate ext mode (shape x) out_size (vals x)\<rparr>"

definition scaled :: "real \<Rightarrow> tensor \<Rightarrow> nat list \<times> real list" where
  "scaled m x = (shape x, map (\<lambda>v. v * m) (vals x))"

section \<open>The generators that draw once\<close>

text \<open>
  Each \<^verbatim>\<open>__call__\<close> takes the keyword parameters that its signature names (None when the
  caller leaves them out), the instance, and for the two generators that touch it the
  default generator of the process. It returns the noise tensor or the exception, and the
  instance as the call leaves it.

  \<^verbatim>\<open>
  class BrownianNoiseGenerator(NoiseGenerator):
      def __call__(self, *, sigma=None, sigma_next=None, **kwargs):
          return BrownianTreeNoiseSampler(self.x, self.sigma_min, self.sigma_max,
                     seed=self.seed, cpu = self.device.type=='cpu')(sigma, sigma_next)
  \<close>
\<close>

definition device_type :: "string \<Rightarrow> string" where
  "device_type d = takeWhile (\<lambda>ch. ch \<noteq> CHR '':'') d"

definition BrownianNoiseGenerator_call ::
  "extern \<Rightarrow> real option \<Rightarrow> real option \<Rightarrow> noise_generator \<Rightarrow> (py_error + tensor) \<times> noise_generator"
where
  "BrownianNoiseGenerator_call ext sigma sigma_next self =
     (Inr (brownian_tree ext (self_x self) (self_sigma_min self) (self_sigma_max self)
             (self_seed self) (device_type (self_device self) = ''cpu'') sigma sigma_next),
      self)"

text \<open>
  \<^verbatim>\<open>
  def __call__(self, *, mean=None, scale=None, **kwargs):      # Uniform
      self.update(mean=mean, scale=scale)
      self.last_seed += 1
      noise = torch.rand(self.size, ..., generator=self.generator)
      return self.scale * 2 * (noise - 0.5) + self.mean
  \<close>
\<close>

definition UniformNoiseGenerator_call ::
  "sampler \<Rightarrow> real option \<Rightarrow> real option \<Rightarrow> noise_generator \<Rightarrow> (py_error + tensor) \<times> noise_generator"
where
  "UniformNoiseGenerator_call orc mean_kw scale_kw self =
     (let self = self\<lparr>self_mean := merge mean_kw (self_mean self),
                      self_scale := merge scale_kw (self_scale self)\<rparr>;
          self = self\<lparr>self_last_seed := self_last_seed self + 1\<rparr>;
          (noise, self) = rand orc self (self_size self)
      in (Inr (noise\<lparr>vals := map (\<lambda>v. self_scale self * 2 * (v - 1 / 2) + self_mean self)
                                 (vals noise)\<rparr>),
          self))"

text \<open>
  \<^verbatim>\<open>
  def __call__(self, *, mean=None, std=None, **kwargs):        # Gaussian
      self.update(mean=mean, std=std)
      self.last_seed += 1
      noise = torch.randn(self.size, ..., generator=self.generator)
      return (noise - noise.mean()) / noise.std()
  \<close>
\<close>

definition GaussianNoiseGenerator_call ::
  "sampler \<Rightarrow> real option \<Rightarrow> real option \<Rightarrow> noise_generator \<Rightarrow> (py_error + tensor) \<times> noise_generator"
where
  "GaussianNoiseGenerator_call orc mean_kw std_kw self =
     (let self = self\<lparr>self_mean := merge mean_kw (self_mean self),
                      self_std := merge std_kw (self_std self)\<rparr>;
          self = self\<lparr>self_last_seed := self_last_seed self + 1\<rparr>;
          (noise, self) = randn orc self (self_size self)
      in (Inr (noise\<lparr>vals := normalize (vals noise)\<rparr>), self))"

text \<open>
  Gaussian backwards: as Gaussian, with
  \<^verbatim>\<open>self.generator.manual_seed(self.generator.initial_seed() - 1)\<close> before the draw.
\<close>

definition GaussianBackwardsNoiseGenerator_call ::
  "sampler \<Rightarrow> real option \<Rightarrow> real option \<Rightarrow> noise_generator \<Rightarrow> (py_error + tensor) \<times> noise_generator"
where
  "GaussianBackwardsNoiseGenerator_call orc mean_kw std_kw self =
     (let self = self\<lparr>self_mean := merge mean_kw (self_mean self),
                      self_std := merge std_kw (self_std self)\<rparr>;
          self = self\<lparr>self_last_seed := self_last_seed self + 1\<rparr>
      in case manual_seed (uint (initial_seed (self_generator self)) - 1) of
           Inl e \<Rightarrow> (Inl e, self)
         | Inr g \<Rightarrow>
             (let self = self\<lparr>self_generator := g\<rparr>;
                  (noise, self) = randn orc self (self_size self)
              in (Inr (noise\<lparr>vals := normalize (vals noise)\<rparr>), self)))"

text \<open>
  \<^verbatim>\<open>
  def __call__(self, *, loc=None, scale=None, **kwargs):       # Laplacian
      self.update(loc=loc, scale=scale)
      self.last_seed += 1
      noise = torch.randn(self.size, ..., generator=self.generator) / 4.0
      rng_state = torch.random.get_rng_state()
      torch.manual_seed(self.generator.initial_seed())
      laplacian_noise = Laplace(loc=self.loc, scale=self.scale).rsample(self.size).to(self.device)
      self.generator.manual_seed(self.generator.initial_seed() + 1)
      torch.random.set_rng_state(rng_state)
      noise += laplacian_noise
      return noise / noise.std()
  \<close>
  \<^verbatim>\<open>rsample\<close> draws from the default generator of the process, \<open>torch_rng\<close>. Seeding the
  instance's generator with \<^verbatim>\<open>initial_seed() + 1\<close> raises RuntimeError when the seed is the
  largest 64-bit number; the exception leaves the method before the saved state is put
  back. Whether \<^verbatim>\<open>Laplace\<close> accepts its parameters is not part of the model.
\<close>

definition LaplacianNoiseGenerator_call ::
  "sampler \<Rightarrow> real option \<Rightarrow> real option \<Rightarrow> noise_generator \<times> generator
     \<Rightarrow> (py_error + tensor) \<times> noise_generator \<times> generator"
where
  "LaplacianNoiseGenerator_call orc loc_kw scale_kw world =
     (let (self, torch_rng) = world;
          self = self\<lparr>self_loc := merge loc_kw (self_loc self),
                      self_scale := merge scale_kw (self_scale self)\<rparr>;
          self = self\<lparr>self_last_seed := self_last_seed self + 1\<rparr>;
          (noise, self) = randn orc self (self_size self);
          noise = noise\<lparr>vals := map (\<lambda>v. v / 4) (vals noise)\<rparr>;
          rng_state = torch_rng
      in case manual_seed (uint (initial_seed (self_generator self))) of
           Inl e \<Rightarrow> (Inl e, self, torch_rng)
         | Inr torch_rng \<Rightarrow>
             (let (laplacian_noise, torch_rng) =
                     draws (laplace_at orc (self_loc self) (self_scale self)) torch_rng
                       (numel (self_size self))
              in case manual_seed (uint (initial_seed (self_generator self)) + 1) of
                   Inl e \<Rightarrow> (Inl e, self, torch_rng)
                 | Inr g \<Rightarrow>
                     (let self = self\<lparr>self_generator := g\<rparr>;
                          torch_rng = rng_state;
                          noise = noise\<lparr>vals := map2 (+) (vals noise) laplacian_noise\<rparr>
                      in (Inr (noise\<lparr>vals := div_std (vals noise)\<rparr>), self, torch_rng))))"

text \<open>
  \<^verbatim>\<open>torch.quantile(x, q, dim=-1)\<close> of one row, with the default linear interpolation between
  the two order statistics around position \<open>q (n - 1)\<close>. An empty input raises RuntimeError
  (the caller checks).
\<close>

definition quantile :: "real \<Rightarrow> real list \<Rightarrow> real" where
  "quantile q xs =
     (let s = sort xs; pos = q * (real (length xs) - 1);
          lo = nat \<lfloor>pos\<rfloor>; hi = nat \<lceil>pos\<rceil>
      in s ! lo + (s ! hi - s ! lo) * (pos - real lo))"

text \<open>\<^verbatim>\<open>torch.copysign(torch.pow(torch.abs(noise), 0.5), noise)\<close>\<close>

definition sqrt_keep_sign :: "real \<Rightarrow> real" where
  "sqrt_keep_sign v = (if v < 0 then - sqrt \<bar>v\<bar> else sqrt \<bar>v\<bar>)"

text \<open>
  \<^verbatim>\<open>
  def __call__(self, *, loc=None, scale=None, df=None, **kwargs):     # Student-t
      self.update(loc=loc, scale=scale, df=df)
      self.last_seed += 1
      rng_state = torch.random.get_rng_state()
      torch.manual_seed(self.generator.initial_seed())
      noise = StudentT(loc=self.loc, scale=self.scale, df=self.df).rsample(self.size)
      if not isinstance(self, BrownianNoiseGenerator):
          self.last_seed += 1
      s = torch.quantile(noise.flatten(start_dim=1).abs(), 0.75, dim=-1)
      if len(self.size) == 5: s = s.reshape(*s.shape, 1, 1, 1, 1)
      else:                   s = s.reshape(*s.shape, 1, 1, 1)
      noise = noise.clamp(-s, s)
      noise_latent = torch.copysign(torch.pow(torch.abs(noise), 0.5), noise).to(self.device)
      self.generator.manual_seed(self.generator.initial_seed() + 1)
      torch.random.set_rng_state(rng_state)
      return (noise_latent - noise_latent.mean()) / noise_latent.std()
  \<close>
  The clamp bound \<open>s\<close> has one entry for each batch item and is broadcast over the rest (for
  the sizes of length 4 and 5, which are the ones the shape descriptor allows).
  \<^verbatim>\<open>torch.quantile\<close> raises for a tensor without elements, and seeding the instance's
  generator with \<^verbatim>\<open>initial_seed() + 1\<close> raises when the seed is the largest 64-bit number;
  either exception leaves the method before the saved state is put back. Whether
  \<^verbatim>\<open>StudentT\<close> accepts its parameters is not part of the model.
\<close>

definition StudentTNoiseGenerator_call ::
  "sampler \<Rightarrow> real option \<Rightarrow> real option \<Rightarrow> real option \<Rightarrow> noise_generator \<times> generator
     \<Rightarrow> (py_error + tensor) \<times> noise_generator \<times> generator"
where
  "StudentTNoiseGenerator_call orc loc_kw scale_kw df_kw world =
     (let (self, torch_rng) = world;
          self = self\<lparr>self_loc := merge loc_kw (self_loc self),
                      self_scale := merge scale_kw (self_scale self),
                      self_df := merge df_kw (self_df self)\<rparr>;
          self = self\<lparr>self_last_seed := self_last_seed self + 1\<rparr>;
          rng_state = torch_rng
      in case manual_seed (uint (initial_seed (self_generator self))) of
           Inl e \<Rightarrow> (Inl e, self, torch_rng)
         | Inr torch_rng \<Rightarrow>
             (let (vs, torch_rng) =
                     draws (studentt_at orc (self_loc self) (self_scale self) (self_df self))
                       torch_rng (numel (self_size self));
                  noise = new_tensor self (self_size self) vs;
                  self = (if self_class self \<noteq> BrownianNoiseGenerator
                          then self\<lparr>self_last_seed := self_last_seed self + 1\<rparr> else self)
              in if numel (self_size self) = 0 then (Inl RuntimeError, self, torch_rng)
                 else
                   (let clamped = concat (map (\<lambda>item. let s = quantile (3 / 4) (map abs item)
                                                       in map (\<lambda>v. min (max v (- s)) s) item)
                                              (batch_items noise));
                        noise_latent = map sqrt_keep_sign clamped
                    in case manual_seed (uint (initial_seed (self_generator self)) + 1) of
                         Inl e \<Rightarrow> (Inl e, self, torch_rng)
                       | Inr g \<Rightarrow>
                           (let self = self\<lparr>self_generator := g\<rparr>;
                                torch_rng = rng_state
                            in (Inr (noise\<lparr>vals := normalize noise_latent\<rparr>), self, torch_rng)))))"

text \<open>
  \<^verbatim>\<open>
  def __call__(self, *, wavelet=None, **kwargs):               # Wavelet
      self.update(wavelet=wavelet)
      self.last_seed += 1
      coeffs = pywt.wavedecn(torch.randn(self.size, ..., generator=self.generator).to('cpu'),
                             wavelet=self.wavelet, mode='periodization')
      noise = pywt.waverecn(coeffs, wavelet=self.wavelet, mode='periodization')
      noise_tensor = torch.tensor(noise, dtype=self.dtype, device=self.device)
      noise_tensor = (noise_tensor - noise_tensor.mean()) / noise_tensor.std()
      return noise_tensor
  \<close>
  The returned tensor has the shape of the array that \<^verbatim>\<open>pywt.waverecn\<close> hands back, and the
  layout of every tensor that \<^verbatim>\<open>torch.tensor\<close> builds.
\<close>

definition WaveletNoiseGenerator_call ::
  "sampler \<Rightarrow> extern \<Rightarrow> string option \<Rightarrow> noise_generator \<Rightarrow> (py_error + tensor) \<times> noise_generator"
where
  "WaveletNoiseGenerator_call orc ext wavelet_kw self =
     (let self = self\<lparr>self_wavelet := merge wavelet_kw (self_wavelet self)\<rparr>;
          self = self\<lparr>self_last_seed := self_last_seed self + 1\<rparr>;
          (drawn, self) = randn orc self (self_size self);
          (noise_shape, noise) = wavelet_roundtrip ext (self_wavelet self) (shape drawn) (vals drawn);
          noise_tensor = \<lparr>shape = noise_shape, dtype = self_dtype self, layout = ''strided'',
                          device = self_device self, vals = noise\<rparr>
      in (Inr (noise_tensor\<lparr>vals := normalize (vals noise_tensor)\<rparr>), self))"

text \<open>
  \<^verbatim>\<open>
  def __call__(self, *, scale=None, **kwargs):                 # Simplex
      self.update(scale=scale)
      self.last_seed += 1
      if len(self.size) == 5: b, c, t, h, w = self.size
      else:                   b, c, h, w = self.size
      noise_array = self.noise.noise3array(np.arange(w),np.arange(h),np.arange(c))
      self.noise = OpenSimplex(seed=self.noise.get_seed()+1)
      noise_tensor = torch.from_numpy(noise_array).to(self.device)
      noise_tensor = torch.unsqueeze(noise_tensor, dim=0)
      if len(self.size) == 5:
          noise_tensor = torch.unsqueeze(noise_tensor, dim=0)
      return noise_tensor / noise_tensor.std()
  \<close>
\<close>

definition SimplexNoiseGenerator_call ::
  "extern \<Rightarrow> real option \<Rightarrow> noise_generator \<Rightarrow> (py_error + tensor) \<times> noise_generator"
where
  "SimplexNoiseGenerator_call ext scale_kw self =
     (let self = self\<lparr>self_scale := merge scale_kw (self_scale self)\<rparr>;
          self = self\<lparr>self_last_seed := self_last_seed self + 1\<rparr>
      in case unpack_size (self_size self) of
           Inl e \<Rightarrow> (Inl e, self)
         | Inr (five, b, c, t, h, w) \<Rightarrow>
             (let noise_array = noise3array ext (self_noise self) w h c;
                  self = self\<lparr>self_noise := self_noise self + 1\<rparr>;
                  sz = (if five then [1, 1, c, h, w] else [1, c, h, w])
              in (Inr (new_tensor self sz (div_std noise_array)), self)))"

section \<open>The fractal generator\<close>

text \<open>
  \<^verbatim>\<open>torch.fft.fftfreq(n, 1/n)\<close>: the sample frequencies \<open>0, 1, ..., (n-1) div 2, -(n div 2), ..., -1\<close>
  (divided by \<open>(1/n) n = 1\<close>).
\<close>

definition fftfreq :: "nat \<Rightarrow> real list" where
  "fftfreq n = map (\<lambda>i. if i < (n + 1) div 2 then real i else real i - real n) [0..<n]"

text \<open>
  \<^verbatim>\<open>
  freq = torch.sqrt(y_freq[:, None]**2 + x_freq[None, :]**2).clamp(min=1e-10)
  freq = torch.sqrt(t_freq[:, None, None]**2 + y_freq[None, :, None]**2
                    + x_freq[None, None, :]**2).clamp(min=1e-10)
  \<close>
\<close>

definition freq_2d :: "nat \<Rightarrow> nat \<Rightarrow> real list list" where
  "freq_2d h w =
     map (\<lambda>y. map (\<lambda>x. max (sqrt (y\<^sup>2 + x\<^sup>2)) (1 / 10 ^ 10)) (fftfreq w)) (fftfreq h)"

definition freq_3d :: "nat \<Rightarrow> nat \<Rightarrow> nat \<Rightarrow> real list list list" where
  "freq_3d t h w =
     map (\<lambda>tf. map (\<lambda>y. map (\<lambda>x. max (sqrt (tf\<^sup>2 + y\<^sup>2 + x\<^sup>2)) (1 / 10 ^ 10)) (fftfreq w))
                    (fftfreq h))
         (fftfreq t)"

text \<open>
  \<^verbatim>\<open>
  spectral_density = self.k / torch.pow(freq, self.alpha * self.scale)
  spectral_density[0, 0] = 0
  \<close>
  On the two-dimensional grid the assignment writes the one element at row 0, column 0.
  On the three-dimensional grid \<^verbatim>\<open>spectral_density[0, 0]\<close> is the row of all \<open>w\<close> elements
  at \<open>t = 0\<close>, \<open>y = 0\<close>, and the assignment writes 0 into each of them.
\<close>

definition spectral_density_2d :: "real \<Rightarrow> real \<Rightarrow> real \<Rightarrow> nat \<Rightarrow> nat \<Rightarrow> real list list" where
  "spectral_density_2d k alpha scale h w =
     (let sd = map (map (\<lambda>f. k / f powr (alpha * scale))) (freq_2d h w)
      in sd[0 := (sd ! 0)[0 := 0]])"

definition spectral_density_3d ::
  "real \<Rightarrow> real \<Rightarrow> real \<Rightarrow> nat \<Rightarrow> nat \<Rightarrow> nat \<Rightarrow> real list list list" where
  "spectral_density_3d k alpha scale t h w =
     (let sd = map (map (map (\<lambda>f. k / f powr (alpha * scale)))) (freq_3d t h w)
      in sd[0 := (sd ! 0)[0 := map (\<lambda>_. 0) (sd ! 0 ! 0)]])"

text \<open>
  \<^verbatim>\<open>
  def __call__(self, *, alpha=None, k=None, scale=None, **kwargs):
      self.update(alpha=alpha, k=k, scale=scale)
      self.last_seed += 1
      (unpack self.size)
      noise = torch.normal(mean=0.0, std=1.0, size=self.size, ..., generator=self.generator)
      y_freq = torch.fft.fftfreq(h, 1/h, device=self.device)
      x_freq = torch.fft.fftfreq(w, 1/w, device=self.device)
      (freq and spectral_density as above)
      noise_fft = torch.fft.fftn(noise)
      modified_fft = noise_fft * spectral_density
      noise = torch.fft.ifftn(modified_fft).real
      return noise / torch.std(noise)
  \<close>
  \<^verbatim>\<open>1/h\<close>, \<^verbatim>\<open>1/w\<close> and \<^verbatim>\<open>1/t\<close> raise ZeroDivisionError for a dimension 0.
\<close>

definition FractalNoiseGenerator_call ::
  "sampler \<Rightarrow> extern \<Rightarrow> real option \<Rightarrow> real option \<Rightarrow> real option \<Rightarrow> noise_generator
     \<Rightarrow> (py_error + tensor) \<times> noise_generator"
where
  "FractalNoiseGenerator_call orc ext alpha_kw k_kw scale_kw self =
     (let self = self\<lparr>self_alpha := merge alpha_kw (self_alpha self),
                      self_k := merge k_kw (self_k self),
                      self_scale := merge scale_kw (self_scale self)\<rparr>;
          self = self\<lparr>self_last_seed := self_last_seed self + 1\<rparr>
      in case unpack_size (self_size self) of
           Inl e \<Rightarrow> (Inl e, self)
         | Inr (five, b, c, t, h, w) \<Rightarrow>
             (let (noise, self) = randn orc self (self_size self)
              in if h = 0 \<or> w = 0 \<or> (five \<and> t = 0) then (Inl ZeroDivisionError, self)
                 else
                   (let density =
                          (if five
                           then expand_to (self_size self) [t, h, w]
                                  (concat (concat (spectral_density_3d (self_k self)
                                     (self_alpha self) (self_scale self) t h w)))
                           else expand_to (self_size self) [h, w]
                                  (concat (spectral_density_2d (self_k self)
                                     (self_alpha self) (self_scale self) h w)));
                        noise_fft = fftn ext (self_size self) (vals noise);
                        modified_fft = map2 (\<lambda>z d. z * complex_of_real d) noise_fft density;
                        filtered = map Re (ifftn ext (self_size self) modified_fft)
                    in (Inr (noise\<lparr>vals := div_std filtered\<rparr>), self))))"

section \<open>The pyramid generators\<close>

text \<open>
  \<^verbatim>\<open>
  def __call__(self, *, discount=None, mode=None, **kwargs):      # Pyramid
      self.update(discount=discount, mode=mode)
      self.last_seed += 1
      x = torch.zeros(self.size, ...)
      (unpack self.size; orig_h, orig_w, orig_t = h, w, t)
      r = 1
      for i in range(5):
          r *= 2
          scaledSize = (b, c, t * r, h * r, w * r)  or  (b, c, h * r, w * r)
          origSize   = (orig_h, orig_w, orig_t)     or  (orig_h, orig_w)
          x += torch.nn.functional.interpolate(
                   torch.normal(mean=0, std=0.5 ** i, size=scaledSize, ..., generator=self.generator),
                   size=origSize, mode=self.mode) * self.discount ** i
      return x / x.std()
  \<close>
\<close>

fun pyramid_loop ::
  "sampler \<Rightarrow> extern \<Rightarrow> bool \<times> nat \<times> nat \<times> nat \<times> nat \<times> nat \<Rightarrow> nat list
     \<Rightarrow> tensor \<times> nat \<times> noise_generator \<Rightarrow> (py_error + tensor) \<times> noise_generator"
where
  "pyramid_loop orc ext dims [] (x, r, self) = (Inr x, self)"
| "pyramid_loop orc ext dims (i # is) (x, r, self) =
     (let (five, b, c, t, h, w) = dims;
          r = r * 2;
          scaledSize = (if five then [b, c, t * r, h * r, w * r] else [b, c, h * r, w * r]);
          origSize = (if five then [h, w, t] else [h, w]);
          (z, self) = randn orc self scaledSize;
          layer = z\<lparr>vals := map (\<lambda>v. 0 + (1 / 2) ^ i * v) (vals z)\<rparr>
      in case iadd x (scaled (self_discount self ^ i) (upsample ext (self_mode self) origSize layer)) of
           Inl e \<Rightarrow> (Inl e, self)
         | Inr x \<Rightarrow> pyramid_loop orc ext dims is (x, r, self))"

definition PyramidNoiseGenerator_call ::
  "sampler \<Rightarrow> extern \<Rightarrow> real option \<Rightarrow> string option \<Rightarrow> noise_generator
     \<Rightarrow> (py_error + tensor) \<times> noise_generator"
where
  "PyramidNoiseGenerator_call orc ext discount_kw mode_kw self =
     (let self = self\<lparr>self_discount := merge discount_kw (self_discount self),
                      self_mode := merge mode_kw (self_mode self)\<rparr>;
          self = self\<lparr>self_last_seed := self_last_seed self + 1\<rparr>;
          x = new_tensor self (self_size self) (replicate (numel (self_size self)) 0)
      in case unpack_size (self_size self) of
           Inl e \<Rightarrow> (Inl e, self)
         | Inr dims \<Rightarrow>
             (case pyramid_loop orc ext dims [0..<5] (x, 1, self) of
                (Inl e, self) \<Rightarrow> (Inl e, self)
              | (Inr x, self) \<Rightarrow> (Inr (x\<lparr>vals := div_std (vals x)\<rparr>), self)))"

text \<open>
  \<^verbatim>\<open>
  def __call__(self, *, discount=None, mode=None, **kwargs):      # Hi-res pyramid
      self.update(discount=discount, mode=mode)
      self.last_seed += 1
      if len(self.size) == 5:
          b, c, t, h, w = self.size
          orig_h, orig_w, orig_t = h, w, t
          u = nn.Upsample(size=(orig_h, orig_w, orig_t), mode=self.mode).to(self.device)
      else:
          b, c, h, w = self.size
          orig_h, orig_w = h, w
          orig_t = t = 1
          u = nn.Upsample(size=(orig_h, orig_w), mode=self.mode).to(self.device)
      noise = ((torch.rand(size=self.size, ..., generator=self.generator) - 0.5) * 2 * 1.73)
      for i in range(4):
          r = torch.rand(1, device=self.device, generator=self.generator).item() * 2 + 2
          h, w = min(orig_h * 15, int(h * (r ** i))), min(orig_w * 15, int(w * (r ** i)))
          if len(self.size) == 5:
              t = min(orig_t * 15, int(t * (r ** i)))
              new_noise = torch.randn((b, c, t, h, w), ..., generator=self.generator)
          else:
              new_noise = torch.randn((b, c, h, w), ..., generator=self.generator)
          upsampled_noise = u(new_noise)
          noise += upsampled_noise * self.discount ** i
          if h >= orig_h * 15 or w >= orig_w * 15 or t >= orig_t * 15:
              break
      return noise / noise.std()
  \<close>
  \<^verbatim>\<open>int\<close> of a non-negative number is its floor.
\<close>

definition grow :: "nat \<Rightarrow> nat \<Rightarrow> real \<Rightarrow> nat \<Rightarrow> nat" where
  "grow orig cur r i = min (orig * 15) (nat \<lfloor>real cur * r ^ i\<rfloor>)"

fun hires_loop ::
  "sampler \<Rightarrow> extern \<Rightarrow> bool \<times> nat \<times> nat \<times> nat \<times> nat \<times> nat \<Rightarrow> nat list
     \<Rightarrow> tensor \<times> nat \<times> nat \<times> nat \<times> noise_generator \<Rightarrow> (py_error + tensor) \<times> noise_generator"
where
  "hires_loop orc ext dims [] (noise, h, w, t, self) = (Inr noise, self)"
| "hires_loop orc ext dims (i # is) (noise, h, w, t, self) =
     (let (five, b, c, orig_t, orig_h, orig_w) = dims;
          (u1, self) = rand orc self [1];
          r = hd (vals u1) * 2 + 2;
          h = grow orig_h h r i;
          w = grow orig_w w r i;
          t = (if five then grow orig_t t r i else t);
          (new_noise, self) = randn orc self (if five then [b, c, t, h, w] else [b, c, h, w]);
          upsampled_noise =
            upsample ext (self_mode self)
              (if five then [orig_h, orig_w, orig_t] else [orig_h, orig_w]) new_noise
      in case iadd noise (scaled (self_discount self ^ i) upsampled_noise) of
           Inl e \<Rightarrow> (Inl e, self)
         | Inr noise \<Rightarrow>
             if h \<ge> orig_h * 15 \<or> w \<ge> orig_w * 15 \<or> t \<ge> orig_t * 15 then (Inr noise, self)
             else hires_loop orc ext dims is (noise, h, w, t, self))"

definition HiresPyramidNoiseGenerator_call ::
  "sampler \<Rightarrow> extern \<Rightarrow> real option \<Rightarrow> string option \<Rightarrow> noise_generator
     \<Rightarrow> (py_error + tensor) \<times> noise_generator"
where
  "HiresPyramidNoiseGenerator_call orc ext discount_kw mode_kw self =
     (let self = self\<lparr>self_discount := merge discount_kw (self_discount self),
                      self_mode := merge mode_kw (self_mode self)\<rparr>;
          self = self\<lparr>self_last_seed := self_last_seed self + 1\<rparr>
      in case unpack_size (self_size self) of
           Inl e \<Rightarrow> (Inl e, self)
         | Inr (five, b, c, t, h, w) \<Rightarrow>
             (let (u0, self) = rand orc self (self_size self);
                  noise = u0\<lparr>vals := map (\<lambda>v. (v - 1 / 2) * 2 * (173 / 100)) (vals u0)\<rparr>
              in case hires_loop orc ext (five, b, c, t, h, w) [0..<4] (noise, h, w, t, self) of
                   (Inl e, self) \<Rightarrow> (Inl e, self)
                 | (Inr noise, self) \<Rightarrow> (Inr (noise\<lparr>vals := div_std (vals noise)\<rparr>), self)))"

text \<open>
  The interpolated pyramid: the loop of the hi-res pyramid with
  \<^verbatim>\<open>nn.functional.interpolate(new_noise, size=(orig_t, orig_h, orig_w), mode=self.mode)\<close> (or
  \<^verbatim>\<open>size=(orig_h, orig_w)\<close>), \<^verbatim>\<open>multipliers.append(self.discount ** i)\<close> after each layer,
  the break test \<^verbatim>\<open>h >= orig_h * 15 or w >= orig_w * 15 or (len(self.size) == 5 and t >= orig_t * 15)\<close>,
  and at the end
  \<^verbatim>\<open>
      noise = noise / sum([m ** 2 for m in multipliers]) ** 0.5
      return noise / noise.std()
  \<close>
\<close>

fun interpolated_loop ::
  "sampler \<Rightarrow> extern \<Rightarrow> bool \<times> nat \<times> nat \<times> nat \<times> nat \<times> nat \<Rightarrow> nat list
     \<Rightarrow> tensor \<times> real list \<times> nat \<times> nat \<times> nat \<times> noise_generator
     \<Rightarrow> (py_error + tensor \<times> real list) \<times> noise_generator"
where
  "interpolated_loop orc ext dims [] (noise, multipliers, h, w, t, self) =
     (Inr (noise, multipliers), self)"
| "interpolated_loop orc ext dims (i # is) (noise, multipliers, h, w, t, self) =
     (let (five, b, c, orig_t, orig_h, orig_w) = dims;
          (u1, self) = rand orc self [1];
          r = hd (vals u1) * 2 + 2;
          h = grow orig_h h r i;
          w = grow orig_w w r i;
          t = (if five then grow orig_t t r i else t);
          (new_noise, self) = randn orc self (if five then [b, c, t, h, w] else [b, c, h, w]);
          upsampled_noise =
            upsample ext (self_mode self)
              (if five then [orig_t, orig_h, orig_w] else [orig_h, orig_w]) new_noise
      in case iadd noise (scaled (self_discount self ^ i) upsampled_noise) of
           Inl e \<Rightarrow> (Inl e, self)
         | Inr noise \<Rightarrow>
             (let multipliers = multipliers @ [self_discount self ^ i]
              in if h \<ge> orig_h * 15 \<or> w \<ge> orig_w * 15 \<or> (five \<and> t \<ge> orig_t * 15)
                 then (Inr (noise, multipliers), self)
                 else interpolated_loop orc ext dims is (noise, multipliers, h, w, t, self)))"

definition InterpolatedPyramidNoiseGenerator_call ::
  "sampler \<Rightarrow> extern \<Rightarrow> real option \<Rightarrow> string option \<Rightarrow> noise_generator
     \<Rightarrow> (py_error + tensor) \<times> noise_generator"
where
  "InterpolatedPyramidNoiseGenerator_call orc ext discount_kw mode_kw self =
     (let self = self\<lparr>self_discount := merge discount_kw (self_discount self),
                      self_mode := merge mode_kw (self_mode self)\<rparr>;
          self = self\<lparr>self_last_seed := self_last_seed self + 1\<rparr>
      in case unpack_size (self_size self) of
           Inl e \<Rightarrow> (Inl e, self)
         | Inr (five, b, c, t, h, w) \<Rightarrow>
             (let (u0, self) = rand orc self (self_size self);
                  noise = u0\<lparr>vals := map (\<lambda>v. (v - 1 / 2) * 2 * (173 / 100)) (vals u0)\<rparr>
              in case interpolated_loop orc ext (five, b, c, t, h, w) [0..<4]
                        (noise, [1], h, w, t, self) of
                   (Inl e, self) \<Rightarrow> (Inl e, self)
                 | (Inr (noise, multipliers), self) \<Rightarrow>
                     (let theory_std = sqrt (sum_list (map (\<lambda>m. m\<^sup>2) multipliers));
                          noise = noise\<lparr>vals := map (\<lambda>v. v / theory_std) (vals noise)\<rparr>
                      in (Inr (noise\<lparr>vals := div_std (vals noise)\<rparr>), self))))"

text \<open>
  \<^verbatim>\<open>
  def __call__(self, *, levels=10, mode='nearest', size_range=[1,16], **kwargs):   # Cascade-B
      self.update(levels=levels, mode=mode)
      if len(self.size) == 5:
          raise NotImplementedError("CascadeBPyramidNoiseGenerator is not implemented for 5D tensors (eg. video).")
      self.last_seed += 1
      b, c, h, w = self.size
      epsilon = torch.randn(self.size, ..., generator=self.generator)
      multipliers = [1]
      for i in range(1, levels):
          m = 0.75 ** i
          h, w = int(epsilon.size(-2) // (2 ** i)), int(epsilon.size(-2) // (2 ** i))
          if size_range is None or (size_range[0] <= h <= size_range[1] or size_range[0] <= w <= size_range[1]):
              offset = torch.randn(epsilon.size(0), epsilon.size(1), h, w, device=self.device, generator=self.generator)
              epsilon = epsilon + torch.nn.functional.interpolate(offset, size=epsilon.shape[-2:], mode=self.mode) * m
              multipliers.append(m)
          if h <= 1 or w <= 1:
              break
      epsilon = epsilon / sum([m ** 2 for m in multipliers]) ** 0.5
      return epsilon
  \<close>
  The parameters carry the defaults of the signature when the caller leaves them out;
  a caller can pass None for each. \<^verbatim>\<open>range(1, None)\<close> raises TypeError.
\<close>

definition in_size_range :: "(int \<times> int) option \<Rightarrow> nat \<Rightarrow> nat \<Rightarrow> bool" where
  "in_size_range size_range h w =
     (case size_range of
        None \<Rightarrow> True
      | Some (lo, hi) \<Rightarrow> (lo \<le> int h \<and> int h \<le> hi) \<or> (lo \<le> int w \<and> int w \<le> hi))"

fun cascade_loop ::
  "sampler \<Rightarrow> extern \<Rightarrow> (int \<times> int) option \<Rightarrow> nat list
     \<Rightarrow> tensor \<times> real list \<times> noise_generator \<Rightarrow> tensor \<times> real list \<times> noise_generator"
where
  "cascade_loop orc ext size_range [] (epsilon, multipliers, self) = (epsilon, multipliers, self)"
| "cascade_loop orc ext size_range (i # is) (epsilon, multipliers, self) =
     (let m = (3 / 4) ^ i;
          h = (shape epsilon ! 2) div 2 ^ i;
          w = (shape epsilon ! 2) div 2 ^ i;
          (epsilon, multipliers, self) =
            (if in_size_range size_range h w
             then (let (offset, self) = randn orc self [shape epsilon ! 0, shape epsilon ! 1, h, w];
                       up = upsample ext (self_mode self) (drop 2 (shape epsilon)) offset
                   in (epsilon\<lparr>vals := map2 (+) (vals epsilon) (map (\<lambda>v. v * m) (vals up))\<rparr>,
                       multipliers @ [m], self))
             else (epsilon, multipliers, self))
      in if h \<le> 1 \<or> w \<le> 1 then (epsilon, multipliers, self)
         else cascade_loop orc ext size_range is (epsilon, multipliers, self))"

definition CascadeBPyramidNoiseGenerator_call ::
  "sampler \<Rightarrow> extern \<Rightarrow> int option \<Rightarrow> string option \<Rightarrow> (int \<times> int) option \<Rightarrow> noise_generator
     \<Rightarrow> (py_error + tensor) \<times> noise_generator"
where
  "CascadeBPyramidNoiseGenerator_call orc ext levels mode_kw size_range self =
     (let self = self\<lparr>self_levels := merge levels (self_levels self),
                      self_mode := merge mode_kw (self_mode self)\<rparr>
      in if length (self_size self) = 5 then (Inl NotImplementedError, self)
         else
           (let self = self\<lparr>self_last_seed := self_last_seed self + 1\<rparr>
            in if length (self_size self) \<noteq> 4 then (Inl ValueError, self)
               else
                 (let (epsilon, self) = randn orc self (self_size self)
                  in case levels of
                       None \<Rightarrow> (Inl TypeError, self)
                     | Some n \<Rightarrow>
                         (let (epsilon, multipliers, self) =
                                cascade_loop orc ext size_range [1..<nat n] (epsilon, [1], self);
                              theory_std = sqrt (sum_list (map (\<lambda>m. m\<^sup>2) multipliers))
                          in (Inr (epsilon\<lparr>vals := map (\<lambda>v. v / theory_std) (vals epsilon)\<rparr>),
                              self)))))"

section \<open>The Perlin generator\<close>

text \<open>\<^verbatim>\<open>smooth_step(t) = t * t * (3.0 - 2.0 * t)\<close> and \<^verbatim>\<open>torch.lerp(a, b, weight)\<close>.\<close>

definition smooth_step :: "real \<Rightarrow> real" where
  "smooth_step t = t * t * (3 - 2 * t)"

definition lerp :: "real \<Rightarrow> real \<Rightarrow> real \<Rightarrow> real" where
  "lerp a b weight = a + weight * (b - a)"

text \<open>
  One element of \<^verbatim>\<open>perlin_noise_tensor(vectors, positions)\<close>, where \<^verbatim>\<open>vectors\<close> is
  \<^verbatim>\<open>unfold_grid(torch.stack((torch.cos(angle), torch.sin(angle)), dim=1))\<close> and \<^verbatim>\<open>positions\<close> is
  \<^verbatim>\<open>get_positions((bh, bw))\<close>. \<open>angle\<close> holds the angles of the \<open>(gh + 1) (gw + 1)\<close> lattice points
  of each batch item in row-major order. The output element \<open>(n, Y, X)\<close> lies in the grid
  cell \<open>(Y div bh, X div bw)\<close> at block position \<open>(Y mod bh, X mod bw)\<close>; \<^verbatim>\<open>unfold\<close> lists the
  corners of a cell as top left, top right, bottom left, bottom right; the position inside
  the cell is \<open>((bx + 0.5) / bw, (by + 0.5) / bh)\<close>.
  \<^verbatim>\<open>
      row0 = lerp((vectors[:, 0] * positions).sum(dim=-1),
                  (vectors[:, 1] * (positions - positions.new_tensor((1, 0)))).sum(dim=-1), step_x)
      row1 = lerp((vectors[:, 2] * (positions - positions.new_tensor((0, 1)))).sum(dim=-1),
                  (vectors[:, 3] * (positions - positions.new_tensor((1, 1)))).sum(dim=-1), step_x)
      noise = lerp(row0, row1, step_y)
  \<close>
\<close>

definition perlin_value ::
  "real list \<Rightarrow> nat \<times> nat \<Rightarrow> nat \<times> nat \<Rightarrow> nat \<Rightarrow> nat \<Rightarrow> nat \<Rightarrow> real" where
  "perlin_value angle grid block n Y X =
     (let (gh, gw) = grid; (bh, bw) = block;
          gy = Y div bh; gx = X div bw;
          px = (real (X mod bw) + 1 / 2) / real bw;
          py = (real (Y mod bh) + 1 / 2) / real bh;
          ang = (\<lambda>y x. angle ! (n * ((gh + 1) * (gw + 1)) + y * (gw + 1) + x));
          a0 = ang gy gx; a1 = ang gy (gx + 1); a2 = ang (gy + 1) gx; a3 = ang (gy + 1) (gx + 1);
          step_x = smooth_step px; step_y = smooth_step py;
          row0 = lerp (cos a0 * px + sin a0 * py) (cos a1 * (px - 1) + sin a1 * py) step_x;
          row1 = lerp (cos a2 * px + sin a2 * (py - 1)) (cos a3 * (px - 1) + sin a3 * (py - 1)) step_x
      in lerp row0 row1 step_y)"

text \<open>
  \<^verbatim>\<open>
  def perlin_noise(self, grid_shape, out_shape, batch_size=1, generator=None, *args, **kwargs):
      gh, gw = grid_shape
      oh, ow = out_shape
      bh, bw = oh // gh, ow // gw
      if oh != bh * gh:
          raise Exception(f"Output height {oh} must be divisible by grid height {gh}")
      if ow != bw * gw != 0:
          raise Exception(f"Output width {ow} must be divisible by grid width {gw}")
      angle = torch.empty([batch_size] + [s + 1 for s in grid_shape], device=self.device,
                          *args, **kwargs).uniform_(to=2.0 * pi, generator=self.generator)
      vectors = self.unfold_grid(torch.stack((torch.cos(angle), torch.sin(angle)), dim=1))
      positions = self.get_positions((bh, bw)).to(vectors)
      return self.perlin_noise_tensor(self, vectors, positions).squeeze(0)
  \<close>
  The angles come from \<^verbatim>\<open>self.generator\<close>, which advances. \<^verbatim>\<open>squeeze(0)\<close> drops the batch
  dimension when it is 1. The result is a shape and its elements.
\<close>

definition squeeze0 :: "nat list \<Rightarrow> nat list" where
  "squeeze0 s = (if s \<noteq> [] \<and> hd s = 1 then tl s else s)"

definition perlin_noise ::
  "sampler \<Rightarrow> nat \<times> nat \<Rightarrow> nat \<times> nat \<Rightarrow> nat \<Rightarrow> noise_generator
     \<Rightarrow> (py_error + nat list \<times> real list) \<times> noise_generator"
where
  "perlin_noise orc grid_shape out_shape batch_size self =
     (let (gh, gw) = grid_shape; (oh, ow) = out_shape
      in if gh = 0 \<or> gw = 0 then (Inl ZeroDivisionError, self)
         else
           (let bh = oh div gh; bw = ow div gw
            in if oh \<noteq> bh * gh then (Inl Exception, self)
               else if ow \<noteq> bw * gw \<and> bw * gw \<noteq> 0 then (Inl Exception, self)
               else
                 (let (u, self) = rand orc self [batch_size, gh + 1, gw + 1];
                      angle = map (\<lambda>v. v * (2 * pi)) (vals u)
                  in (Inr (squeeze0 [batch_size, gh * bh, gw * bw],
                           concat (map (\<lambda>n. concat (map (\<lambda>Y. map (\<lambda>X.
                               perlin_value angle (gh, gw) (bh, bw) n Y X) [0..<gw * bw])
                             [0..<gh * bh])) [0..<batch_size])),
                      self))))"

text \<open>
  \<^verbatim>\<open>noise[:, :, tt:tt+1, :, :] += perlin_expanded\<close>: an in-place addition into the slice of a
  5-D tensor at time \<open>tt\<close>, with the broadcasting rule for the shape of the slice.
\<close>

definition unsqueeze :: "nat \<Rightarrow> nat list \<Rightarrow> nat list" where
  "unsqueeze d s = take d s @ [1] @ drop d s"

definition iadd_time_slice :: "tensor \<Rightarrow> nat \<Rightarrow> nat list \<times> real list \<Rightarrow> py_error + tensor" where
  "iadd_time_slice a tt b =
     (let slice_shape = (shape a)[2 := 1]
      in if broadcastable (fst b) slice_shape
         then (let e = expand_to slice_shape (fst b) (snd b)
               in Inr (a\<lparr>vals := map (\<lambda>i. let idx = unravel (shape a) i
                                           in if idx ! 2 = tt
                                              then vals a ! i + e ! ravel slice_shape (idx[2 := 0])
                                              else vals a ! i)
                                      [0..<numel (shape a)]\<rparr>))
         else Inl RuntimeError)"

text \<open>
  \<^verbatim>\<open>
  def __call__(self, *, detail=None, **kwargs):
      self.update(detail=detail) #currently unused
      self.last_seed += 1
      if len(self.size) == 5:
          b, c, t, h, w = self.size
          noise = torch.randn(self.size, ..., generator=self.generator) / 2.0
          for tt in range(t):
              for i in range(2):
                  perlin_slice = self.perlin_noise((h, w), (h, w), batch_size=c, generator=self.generator).to(self.device)
                  perlin_expanded = perlin_slice.unsqueeze(0).unsqueeze(2)
                  time_slice = noise[:, :, tt:tt+1, :, :]
                  noise[:, :, tt:tt+1, :, :] += perlin_expanded
      else:
          b, c, h, w = self.size
          noise = torch.randn(self.size, ..., generator=self.generator) / 2.0
          for i in range(2):
              noise += self.perlin_noise((h, w), (h, w), batch_size=c, generator=self.generator).to(self.device)
      return noise / noise.std()
  \<close>
  The two nested loops of the 5-D branch run over the pairs \<open>(tt, i)\<close> in the order of
  \<open>List.product [0..<t] [0..<2]\<close>.
\<close>

fun perlin_loop_5d ::
  "sampler \<Rightarrow> nat \<times> nat \<times> nat \<Rightarrow> (nat \<times> nat) list \<Rightarrow> tensor \<times> noise_generator
     \<Rightarrow> (py_error + tensor) \<times> noise_generator"
where
  "perlin_loop_5d orc chw [] (noise, self) = (Inr noise, self)"
| "perlin_loop_5d orc chw ((tt, i) # rest) (noise, self) =
     (let (c, h, w) = chw
      in case perlin_noise orc (h, w) (h, w) c self of
           (Inl e, self) \<Rightarrow> (Inl e, self)
         | (Inr perlin_slice, self) \<Rightarrow>
             (let perlin_expanded = (unsqueeze 2 (unsqueeze 0 (fst perlin_slice)), snd perlin_slice)
              in case iadd_time_slice noise tt perlin_expanded of
                   Inl e \<Rightarrow> (Inl e, self)
                 | Inr noise \<Rightarrow> perlin_loop_5d orc chw rest (noise, self)))"

fun perlin_loop_4d ::
  "sampler \<Rightarrow> nat \<times> nat \<times> nat \<Rightarrow> nat list \<Rightarrow> tensor \<times> noise_generator
     \<Rightarrow> (py_error + tensor) \<times> noise_generator"
where
  "perlin_loop_4d orc chw [] (noise, self) = (Inr noise, self)"
| "perlin_loop_4d orc chw (i # rest) (noise, self) =
     (let (c, h, w) = chw
      in case perlin_noise orc (h, w) (h, w) c self of
           (Inl e, self) \<Rightarrow> (Inl e, self)
         | (Inr perlin, self) \<Rightarrow>
             (case iadd noise perlin of
                Inl e \<Rightarrow> (Inl e, self)
              | Inr noise \<Rightarrow> perlin_loop_4d orc chw rest (noise, self)))"

text \<open>The tensor that \<^verbatim>\<open>__call__\<close> holds in \<^verbatim>\<open>noise\<close> when it reaches its return statement.\<close>

definition perlin_accumulate ::
  "sampler \<Rightarrow> real option \<Rightarrow> noise_generator \<Rightarrow> (py_error + tensor) \<times> noise_generator"
where
  "perlin_accumulate orc detail_kw self =
     (let self = self\<lparr>self_detail := merge detail_kw (self_detail self)\<rparr>;
          self = self\<lparr>self_last_seed := self_last_seed self + 1\<rparr>
      in case unpack_size (self_size self) of
           Inl e \<Rightarrow> (Inl e, self)
         | Inr (five, b, c, t, h, w) \<Rightarrow>
             (let (z, self) = randn orc self (self_size self);
                  noise = z\<lparr>vals := map (\<lambda>v. v / 2) (vals z)\<rparr>
              in if five then perlin_loop_5d orc (c, h, w) (List.product [0..<t] [0..<2]) (noise, self)
                 else perlin_loop_4d orc (c, h, w) [0..<2] (noise, self)))"

definition PerlinNoiseGenerator_call ::
  "sampler \<Rightarrow> real option \<Rightarrow> noise_generator \<Rightarrow> (py_error + tensor) \<times> noise_generator"
where
  "PerlinNoiseGenerator_call orc detail_kw self =
     (case perlin_accumulate orc detail_kw self of
        (Inl e, self) \<Rightarrow> (Inl e, self)
      | (Inr noise, self) \<Rightarrow> (Inr (noise\<lparr>vals := div_std (vals noise)\<rparr>), self))"

section \<open>Calling a generator with keyword arguments\<close>

text \<open>
  \<^verbatim>\<open>noise_func(**kwargs)\<close>: Python binds the keywords that the signature of the class names
  to its parameters and collects the others in \<^verbatim>\<open>**kwargs\<close>, which no \<^verbatim>\<open>__call__\<close> of the
  module reads. A parameter that the caller leaves out has its default: None, except for
  \<^verbatim>\<open>levels=10, mode='nearest', size_range=[1,16]\<close> of Cascade-B. The values are typed; a
  keyword holding a value of another type than its parameter is read as None. The base
  class's \<^verbatim>\<open>__call__(self)\<close> accepts no keyword at all.
\<close>

datatype kwarg = KwNone | KwReal real | KwInt int | KwStr string | KwList "int list"

definition kw_real :: "(string \<times> kwarg) list \<Rightarrow> string \<Rightarrow> real option" where
  "kw_real kwargs name = (case map_of kwargs name of Some (KwReal r) \<Rightarrow> Some r | _ \<Rightarrow> None)"

definition kw_str :: "(string \<times> kwarg) list \<Rightarrow> string \<Rightarrow> string option" where
  "kw_str kwargs name = (case map_of kwargs name of Some (KwStr s) \<Rightarrow> Some s | _ \<Rightarrow> None)"

definition kw_levels :: "(string \<times> kwarg) list \<Rightarrow> int option" where
  "kw_levels kwargs =
     (case map_of kwargs ''levels'' of None \<Rightarrow> Some 10 | Some (KwInt n) \<Rightarrow> Some n | _ \<Rightarrow> None)"

definition kw_mode_nearest :: "(string \<times> kwarg) list \<Rightarrow> string option" where
  "kw_mode_nearest kwargs =
     (case map_of kwargs ''mode'' of None \<Rightarrow> Some ''nearest'' | Some (KwStr s) \<Rightarrow> Some s
      | _ \<Rightarrow> None)"

definition kw_size_range :: "(string \<times> kwarg) list \<Rightarrow> (int \<times> int) option" where
  "kw_size_range kwargs =
     (case map_of kwargs ''size_range'' of None \<Rightarrow> Some (1, 16)
      | Some (KwList [lo, hi]) \<Rightarrow> Some (lo, hi) | _ \<Rightarrow> None)"

definition with_rng ::
  "generator \<Rightarrow> (py_error + tensor) \<times> noise_generator
     \<Rightarrow> (py_error + tensor) \<times> noise_generator \<times> generator" where
  "with_rng torch_rng r = (fst r, snd r, torch_rng)"

definition noise_call ::
  "sampler \<Rightarrow> extern \<Rightarrow> (string \<times> kwarg) list \<Rightarrow> noise_generator \<times> generator
     \<Rightarrow> (py_error + tensor) \<times> noise_generator \<times> generator"
where
  "noise_call orc ext kwargs world =
     (let (self, torch_rng) = world
      in case self_class self of
           NoiseGenerator \<Rightarrow>
             (if kwargs = [] then with_rng torch_rng (NoiseGenerator_call self)
              else (Inl TypeError, self, torch_rng))
         | BrownianNoiseGenerator \<Rightarrow>
             with_rng torch_rng
               (BrownianNoiseGenerator_call ext (kw_real kwargs ''sigma'') (kw_real kwargs ''sigma_next'') self)
         | FractalNoiseGenerator \<Rightarrow>
             with_rng torch_rng
               (FractalNoiseGenerator_call orc ext (kw_real kwargs ''alpha'') (kw_real kwargs ''k'')
                  (kw_real kwargs ''scale'') self)
         | SimplexNoiseGenerator \<Rightarrow>
             with_rng torch_rng (SimplexNoiseGenerator_call ext (kw_real kwargs ''scale'') self)
         | HiresPyramidNoiseGenerator \<Rightarrow>
             with_rng torch_rng
               (HiresPyramidNoiseGenerator_call orc ext (kw_real kwargs ''discount'')
                  (kw_str kwargs ''mode'') self)
         | PyramidNoiseGenerator \<Rightarrow>
             with_rng torch_rng
               (PyramidNoiseGenerator_call orc ext (kw_real kwargs ''discount'')
                  (kw_str kwargs ''mode'') self)
         | InterpolatedPyramidNoiseGenerator \<Rightarrow>
             with_rng torch_rng
               (InterpolatedPyramidNoiseGenerator_call orc ext (kw_real kwargs ''discount'')
                  (kw_str kwargs ''mode'') self)
         | CascadeBPyramidNoiseGenerator \<Rightarrow>
             with_rng torch_rng
               (CascadeBPyramidNoiseGenerator_call orc ext (kw_levels kwargs)
                  (kw_mode_nearest kwargs) (kw_size_range kwargs) self)
         | UniformNoiseGenerator \<Rightarrow>
             with_rng torch_rng
               (UniformNoiseGenerator_call orc (kw_real kwargs ''mean'') (kw_real kwargs ''scale'') self)
         | GaussianNoiseGenerator \<Rightarrow>
             with_rng torch_rng
               (GaussianNoiseGenerator_call orc (kw_real kwargs ''mean'') (kw_real kwargs ''std'') self)
         | GaussianBackwardsNoiseGenerator \<Rightarrow>
             with_rng torch_rng
               (GaussianBackwardsNoiseGenerator_call orc (kw_real kwargs ''mean'')
                  (kw_real kwargs ''std'') self)
         | LaplacianNoiseGenerator \<Rightarrow>
             LaplacianNoiseGenerator_call orc (kw_real kwargs ''loc'') (kw_real kwargs ''scale'')
               (self, torch_rng)
         | StudentTNoiseGenerator \<Rightarrow>
             StudentTNoiseGenerator_call orc (kw_real kwargs ''loc'') (kw_real kwargs ''scale'')
               (kw_real kwargs ''df'') (self, torch_rng)
         | WaveletNoiseGenerator \<Rightarrow>
             with_rng torch_rng (WaveletNoiseGenerator_call orc ext (kw_str kwargs ''wavelet'') self)
         | PerlinNoiseGenerator \<Rightarrow>
             with_rng torch_rng (PerlinNoiseGenerator_call orc (kw_real kwargs ''detail'') self))"

section \<open>The registry and prepare_noise\<close>

text \<open>
  \<^verbatim>\<open>NOISE_GENERATOR_CLASSES\<close>: the constructors by name, each with the defaults of its
  signature and, for the entries built by \<^verbatim>\<open>noise_generator_factory\<close>, the fixed mode.
  \<^verbatim>\<open>OPENSIMPLEX_ENABLE\<close> is False, so that \<^verbatim>\<open>"simplex"\<close> is not registered.
\<close>

definition NOISE_GENERATOR_CLASSES ::
  "string \<rightharpoonup> (py_error + noise_generator \<Rightarrow> py_error + noise_generator)" where
  "NOISE_GENERATOR_CLASSES = map_of
     [(''fractal'', FractalNoiseGenerator_init 0 1 (1 / 10)),
      (''gaussian'', GaussianNoiseGenerator_init 0 1),
      (''gaussian_backwards'', GaussianBackwardsNoiseGenerator_init 0 1),
      (''uniform'', UniformNoiseGenerator_init 0 (173 / 100)),
      (''pyramid-cascade_B'', CascadeBPyramidNoiseGenerator_init 10 ''nearest'' (1, 16)),
      (''pyramid-interpolated'', InterpolatedPyramidNoiseGenerator_init (7 / 10) ''nearest-exact''),
      (''pyramid-bilinear'', PyramidNoiseGenerator_init (8 / 10) ''bilinear''),
      (''pyramid-bicubic'', PyramidNoiseGenerator_init (8 / 10) ''bicubic''),
      (''pyramid-nearest'', PyramidNoiseGenerator_init (8 / 10) ''nearest''),
      (''hires-pyramid-bilinear'', HiresPyramidNoiseGenerator_init (7 / 10) ''bilinear''),
      (''hires-pyramid-bicubic'', HiresPyramidNoiseGenerator_init (7 / 10) ''bicubic''),
      (''hires-pyramid-nearest'', HiresPyramidNoiseGenerator_init (7 / 10) ''nearest''),
      (''brownian'', BrownianNoiseGenerator_init),
      (''laplacian'', LaplacianNoiseGenerator_init 0 1),
      (''studentt'', StudentTNoiseGenerator_init 0 (2 / 10) 1),
      (''wavelet'', WaveletNoiseGenerator_init ''haar''),
      (''perlin'', PerlinNoiseGenerator_init 0)]"

text \<open>
  \<^verbatim>\<open>
  noise_func = NOISE_GENERATOR_CLASSES.get(noise_type)(x=latent_image, seed=seed,
                   sigma_min=0.0291675, sigma_max=14.614642)
  if noise_type == "fractal":
      noise_func.alpha = alpha
      noise_func.k = k
  \<close>
  A name that is not registered gives None, and calling None raises TypeError.
\<close>

definition construct ::
  "string \<Rightarrow> tensor \<Rightarrow> int \<Rightarrow> real \<Rightarrow> real \<Rightarrow> py_error + noise_generator" where
  "construct noise_type x seed alpha k =
     (case NOISE_GENERATOR_CLASSES noise_type of
        None \<Rightarrow> Inl TypeError
      | Some cls \<Rightarrow>
          (case cls (NoiseGenerator_init (Some x) None None None None seed None
                       (Some (291675 / 10 ^ 7)) (Some (14614642 / 10 ^ 6))) of
             Inl e \<Rightarrow> Inl e
           | Inr noise_func \<Rightarrow>
               Inr (if noise_type = ''fractal''
                    then noise_func\<lparr>self_alpha := alpha, self_k := k\<rparr> else noise_func)))"

definition sigma_kwargs :: "(string \<times> kwarg) list" where
  "sigma_kwargs = [(''sigma'', KwReal (14614642 / 10 ^ 6)), (''sigma_next'', KwReal (291675 / 10 ^ 7))]"

text \<open>
  \<^verbatim>\<open>size = [1] + list(latent_image.size())[1:], dtype=latent_image.dtype,
  layout=latent_image.layout, device=latent_image.device\<close>
\<close>

definition size_kwargs :: "tensor \<Rightarrow> (string \<times> kwarg) list" where
  "size_kwargs latent_image =
     [(''size'', KwList (1 # map int (tl (shape latent_image)))),
      (''dtype'', KwStr (dtype latent_image)),
      (''layout'', KwStr (layout latent_image)),
      (''device'', KwStr (device latent_image))]"

text \<open>
  \<^verbatim>\<open>unique_inds, inverse = np.unique(noise_inds, return_inverse=True)\<close>: the sorted distinct
  indices, and for each index its position among them.
\<close>

definition np_unique :: "int list \<Rightarrow> int list" where
  "np_unique noise_inds = sort (remdups noise_inds)"

definition np_inverse :: "int list \<Rightarrow> nat list" where
  "np_inverse noise_inds =
     map (\<lambda>i. length (takeWhile (\<lambda>u. u \<noteq> i) (np_unique noise_inds))) noise_inds"

text \<open>
  \<^verbatim>\<open>
  noises = []
  for i in range(unique_inds[-1]+1):
      noise = noise_func(size = [1] + list(latent_image.size())[1:], dtype=..., layout=..., device=...)
      if i in unique_inds:
          noises.append(noise)
  \<close>
\<close>

fun noise_loop ::
  "sampler \<Rightarrow> extern \<Rightarrow> (string \<times> kwarg) list \<Rightarrow> int list \<Rightarrow> nat list
     \<Rightarrow> tensor list \<times> noise_generator \<times> generator
     \<Rightarrow> (py_error + tensor list) \<times> noise_generator \<times> generator"
where
  "noise_loop orc ext kwargs unique_inds [] (noises, world) = (Inr noises, world)"
| "noise_loop orc ext kwargs unique_inds (i # rest) (noises, world) =
     (case noise_call orc ext kwargs world of
        (Inl e, world) \<Rightarrow> (Inl e, world)
      | (Inr noise, world) \<Rightarrow>
          noise_loop orc ext kwargs unique_inds rest
            (if int i \<in> set unique_inds then noises @ [noise] else noises, world))"

text \<open>
  \<^verbatim>\<open>
  noises = [noises[i] for i in inverse]
  noises = torch.cat(noises, axis=0)
  \<close>
  An index beyond the end of the list raises IndexError.
\<close>

definition gather_cat :: "tensor list \<Rightarrow> nat list \<Rightarrow> py_error + tensor" where
  "gather_cat noises inverse_inds =
     (if list_ex (\<lambda>i. i \<ge> length noises) inverse_inds then Inl IndexError
      else Inr (cat0 (map (\<lambda>i. noises ! i) inverse_inds)))"

text \<open>
  Lines 725 to 732 of \<^verbatim>\<open>prepare_noise\<close>: the base noise of the indexed path.
  \<^verbatim>\<open>unique_inds[-1]\<close> raises IndexError for an empty index list; \<^verbatim>\<open>range\<close> of a number that
  is not positive is empty.
\<close>

definition indexed_noises ::
  "sampler \<Rightarrow> extern \<Rightarrow> tensor \<Rightarrow> int list \<Rightarrow> noise_generator \<times> generator
     \<Rightarrow> (py_error + tensor) \<times> noise_generator \<times> generator"
where
  "indexed_noises orc ext latent_image noise_inds world =
     (let unique_inds = np_unique noise_inds; inverse_inds = np_inverse noise_inds
      in if unique_inds = [] then (Inl IndexError, world)
         else
           (case noise_loop orc ext (size_kwargs latent_image) unique_inds
                   [0..<nat (last unique_inds + 1)] ([], world) of
              (Inl e, world) \<Rightarrow> (Inl e, world)
            | (Inr noises, world) \<Rightarrow> (gather_cat noises inverse_inds, world)))"

text \<open>
  The loops that build the variation noise: in the path without indices
  \<^verbatim>\<open>
  for i in range(batch_size):
      var_noise_func = NOISE_GENERATOR_CLASSES.get(noise_type)(x=latent_image[i:i+1], seed=var_seed + i, ...)
      (alpha and k for "fractal")
      var_noise = var_noise_func(sigma=14.614642, sigma_next=0.0291675)
      var_noises.append(var_noise)
  \<close>
  and in the indexed path, over \<^verbatim>\<open>unique_inds\<close>, with \<^verbatim>\<open>x=latent_image\<close> and the size keywords.
\<close>

fun var_loop ::
  "sampler \<Rightarrow> extern \<Rightarrow> string \<Rightarrow> real \<Rightarrow> real \<Rightarrow> (string \<times> kwarg) list
     \<Rightarrow> (tensor \<times> int) list \<Rightarrow> tensor list \<times> generator \<Rightarrow> (py_error + tensor list) \<times> generator"
where
  "var_loop orc ext noise_type alpha k kwargs [] (var_noises, torch_rng) = (Inr var_noises, torch_rng)"
| "var_loop orc ext noise_type alpha k kwargs ((x, seed) # rest) (var_noises, torch_rng) =
     (case construct noise_type x seed alpha k of
        Inl e \<Rightarrow> (Inl e, torch_rng)
      | Inr var_noise_func \<Rightarrow>
          (case noise_call orc ext kwargs (var_noise_func, torch_rng) of
             (Inl e, _, torch_rng) \<Rightarrow> (Inl e, torch_rng)
           | (Inr var_noise, _, torch_rng) \<Rightarrow>
               var_loop orc ext noise_type alpha k kwargs rest (var_noises @ [var_noise], torch_rng)))"

text \<open>
  \<^verbatim>\<open>prepare_noise(latent_image, seed, noise_type, noise_inds=None, alpha=1.0, k=1.0,
  var_seed=None, var_strength=0.0)\<close>. The decorator \<^verbatim>\<open>precision_tool.cast_tensor\<close> only
  changes the dtype of the tensor arguments and is left out.
\<close>

definition prepare_noise ::
  "sampler \<Rightarrow> extern \<Rightarrow> tensor \<Rightarrow> int \<Rightarrow> string \<Rightarrow> int list option \<Rightarrow> real \<Rightarrow> real
     \<Rightarrow> int option \<Rightarrow> real \<Rightarrow> generator \<Rightarrow> (py_error + tensor) \<times> generator"
where
  "prepare_noise orc ext latent_image seed noise_type noise_inds alpha k var_seed var_strength torch_rng =
     (case construct noise_type latent_image seed alpha k of
        Inl e \<Rightarrow> (Inl e, torch_rng)
      | Inr noise_func \<Rightarrow>
          (case noise_inds of
             None \<Rightarrow>
               (case noise_call orc ext sigma_kwargs (noise_func, torch_rng) of
                  (Inl e, _, torch_rng) \<Rightarrow> (Inl e, torch_rng)
                | (Inr base_noise, _, torch_rng) \<Rightarrow>
                    (if var_seed \<noteq> None \<and> var_strength > 0
                     then (case var_loop orc ext noise_type alpha k sigma_kwargs
                                  (map (\<lambda>i. (slice0 latent_image i, the var_seed + int i))
                                     [0..<hd (shape base_noise)])
                                  ([], torch_rng) of
                             (Inl e, torch_rng) \<Rightarrow> (Inl e, torch_rng)
                           | (Inr var_noises, torch_rng) \<Rightarrow>
                               (Inr (slerp ext base_noise (cat0 var_noises) var_strength), torch_rng))
                     else (Inr base_noise, torch_rng)))
           | Some inds \<Rightarrow>
               (case indexed_noises orc ext latent_image inds (noise_func, torch_rng) of
                  (Inl e, _, torch_rng) \<Rightarrow> (Inl e, torch_rng)
                | (Inr noises, _, torch_rng) \<Rightarrow>
                    (if var_seed \<noteq> None \<and> var_strength > 0
                     then (case var_loop orc ext noise_type alpha k (size_kwargs latent_image)
                                  (map (\<lambda>i. (latent_image, the var_seed + i)) (np_unique inds))
                                  ([], torch_rng) of
                             (Inl e, torch_rng) \<Rightarrow> (Inl e, torch_rng)
                           | (Inr var_noises, torch_rng) \<Rightarrow>
                               (Inr (slerp ext noises
                                       (cat0 (map (\<lambda>i. var_noises ! i) (np_inverse inds)))
                                       var_strength),
                                torch_rng))
                     else (Inr noises, torch_rng)))))"

section \<open>Successive invocations\<close>

text \<open>
  The fields that \<open>n\<close> invocations of a generator in a row return, with the same keyword
  arguments each time, and the state they leave; the first exception ends the run. The
  theorems on the indexed path of \<^verbatim>\<open>prepare_noise\<close> are stated with it.
\<close>

fun successive_calls ::
  "sampler \<Rightarrow> extern \<Rightarrow> (string \<times> kwarg) list \<Rightarrow> nat \<Rightarrow> noise_generator \<times> generator
     \<Rightarrow> (py_error + tensor list) \<times> noise_generator \<times> generator"
where
  "successive_calls orc ext kwargs 0 world = (Inr [], world)"
| "successive_calls orc ext kwargs (Suc n) world =
     (case noise_call orc ext kwargs world of
        (Inl e, world) \<Rightarrow> (Inl e, world)
      | (Inr field, world) \<Rightarrow>
          (case successive_calls orc ext kwargs n world of
             (Inl e, world) \<Rightarrow> (Inl e, world)
           | (Inr later, world) \<Rightarrow> (Inr (field # later), world)))"


section \<open>The Perlin field of one lattice\<close>

text \<open>
  The element \<open>(ch, y, x)\<close> of the field that \<^verbatim>\<open>perlin_noise((h, w), (h, w), batch_size=c)\<close>
  computes from the lattice of \<open>c (h + 1) (w + 1)\<close> angles that a generator seeded with \<open>seed\<close>
  hands out from position \<open>off\<close> on. The theorem on the 5-D branch of the Perlin generator
  is stated with it.
\<close>

definition lattice_field ::
  "sampler \<Rightarrow> 64 word \<Rightarrow> nat \<Rightarrow> nat \<times> nat \<times> nat \<Rightarrow> nat \<Rightarrow> nat \<Rightarrow> nat \<Rightarrow> real" where
  "lattice_field orc seed off chw ch y x =
     (let (c, h, w) = chw
      in perlin_value (map (\<lambda>v. v * (2 * pi))
                         (map (uniform_at orc seed) [off..<off + c * ((h + 1) * (w + 1))]))
           (h, w) (1, 1) ch y x)"

text \<open>
  What the 5-D branch of the Perlin generator adds to the element at the multi-index
  \<open>idx = [n, ch, tt, y, x]\<close> when its loop starts at time slice \<open>k\<close> with the generator at
  position \<open>off\<close>: the two fields of the lattices drawn for the time slice \<open>tt\<close> of the element,
  which are the lattices number \<open>2 (tt - k)\<close> and \<open>2 (tt - k) + 1\<close> from \<open>off\<close> on.
\<close>

definition perlin_component ::
  "sampler \<Rightarrow> 64 word \<Rightarrow> nat \<Rightarrow> nat \<times> nat \<times> nat \<Rightarrow> nat \<Rightarrow> nat list \<Rightarrow> real" where
  "perlin_component orc seed off chw k idx =
     (let (c, h, w) = chw; lattice = c * ((h + 1) * (w + 1)); tt = idx ! 2
      in if k \<le> tt
         then lattice_field orc seed (off + 2 * (tt - k) * lattice) chw (idx ! 1) (idx ! 3) (idx ! 4)
              + lattice_field orc seed (off + (2 * (tt - k) + 1) * lattice) chw (idx ! 1) (idx ! 3) (idx ! 4)
         else 0)"

section \<open>Concrete inputs\<close>

text \<open>
  Inputs at which the theorems below are instantiated: a sampler whose streams are given
  by lists (0 beyond the end of a list), library functions that return their input (or
  nothing), and a reference latent of a given shape.
\<close>

definition stream :: "real list \<Rightarrow> nat \<Rightarrow> real" where
  "stream xs pos = (if pos < length xs then xs ! pos else 0)"

definition listed_sampler :: "real list \<Rightarrow> real list \<Rightarrow> real list \<Rightarrow> sampler" where
  "listed_sampler normals uniforms secondary =
     \<lparr>normal_at = (\<lambda>seed. stream normals), uniform_at = (\<lambda>seed. stream uniforms),
      laplace_at = (\<lambda>loc scale seed. stream secondary),
      studentt_at = (\<lambda>loc scale df seed. stream secondary)\<rparr>"

definition plain_extern :: extern where
  "plain_extern =
     \<lparr>interpolate = (\<lambda>mode in_shape out_size vs. vs),
      fftn = (\<lambda>s vs. map complex_of_real vs),
      ifftn = (\<lambda>s zs. zs),
      wavelet_roundtrip = (\<lambda>wavelet s vs. (s, vs)),
      noise3array = (\<lambda>seed w h c. []),
      brownian_tree = (\<lambda>x sigma_min sigma_max seed cpu sigma sigma_next. x),
      slerp = (\<lambda>a b t. a)\<rparr>"


definition latent_of :: "nat list \<Rightarrow> tensor" where
  "latent_of s =
     \<lparr>shape = s, dtype = ''float32'', layout = ''strided'', device = ''cpu'',
      vals = replicate (numel s) 0\<rparr>"

section \<open>Theorems about update\<close>

lemma update_loop_ok:
  assumes "distinct (map fst kwargs)"
    and "\<forall>n. (n, None) \<in> set kwargs \<longrightarrow> n \<in> dom self"
  shows "\<exists>vs self'. update_loop kwargs self acc = (Inr (acc @ vs), self')
           \<and> map Some vs = map (self' \<circ> fst) kwargs
           \<and> (\<forall>n v. (n, Some v) \<in> set kwargs \<longrightarrow> self' n = Some v)
           \<and> (\<forall>n. (n, None) \<in> set kwargs \<longrightarrow> self' n = self n)
           \<and> (\<forall>n. n \<notin> fst ` set kwargs \<longrightarrow> self' n = self n)"
  using assms
proof (induction kwargs arbitrary: self acc)
  case Nil
  then show ?case by simp
next
  case (Cons item items)
  obtain name val where item: "item = (name, val)" by (cases item)
  define self1 where "self1 = (case val of None \<Rightarrow> self | Some v \<Rightarrow> self(name \<mapsto> v))"
  have notin: "name \<notin> fst ` set items" and dist: "distinct (map fst items)"
    using Cons.prems(1) by (auto simp: item)
  have has: "self1 name \<noteq> None"
    using Cons.prems(2) by (cases val) (auto simp: self1_def item)
  then obtain cur where cur: "self1 name = Some cur" by auto
  have off: "\<And>n. n \<noteq> name \<Longrightarrow> self1 n = self n"
    by (cases val) (auto simp: self1_def)
  have pre: "\<forall>n. (n, None) \<in> set items \<longrightarrow> n \<in> dom self1"
  proof (intro allI impI)
    fix n assume n: "(n, None) \<in> set items"
    then have "n \<noteq> name" using notin by force
    moreover have "n \<in> dom self" using Cons.prems(2) n by (auto simp: item)
    ultimately show "n \<in> dom self1" using off by (auto simp: dom_def)
  qed
  from Cons.IH [OF dist pre, of "acc @ [cur]"]
  obtain vs self' where
    run: "update_loop items self1 (acc @ [cur]) = (Inr ((acc @ [cur]) @ vs), self')"
    and vals: "map Some vs = map (self' \<circ> fst) items"
    and set_some: "\<forall>n v. (n, Some v) \<in> set items \<longrightarrow> self' n = Some v"
    and set_none: "\<forall>n. (n, None) \<in> set items \<longrightarrow> self' n = self1 n"
    and frame: "\<forall>n. n \<notin> fst ` set items \<longrightarrow> self' n = self1 n"
    by blast
  have keep: "self' name = Some cur" using frame notin cur by simp
  have step: "update_loop (item # items) self acc = (Inr (acc @ (cur # vs)), self')"
    using run cur by (simp add: item self1_def [symmetric])
  have v1: "map Some (cur # vs) = map (self' \<circ> fst) (item # items)"
    using vals keep by (simp add: item)
  have v2: "\<forall>n v. (n, Some v) \<in> set (item # items) \<longrightarrow> self' n = Some v"
    using set_some keep cur by (auto simp: item self1_def)
  have v3: "\<forall>n. (n, None) \<in> set (item # items) \<longrightarrow> self' n = self n"
  proof (intro allI impI)
    fix n assume n: "(n, None) \<in> set (item # items)"
    show "self' n = self n"
    proof (cases "n = name")
      case True
      then have "val = None" using n notin by (force simp: item)
      then show ?thesis using keep cur True by (simp add: self1_def)
    next
      case False
      then have "(n, None) \<in> set items" using n by (simp add: item)
      then show ?thesis using set_none off False by simp
    qed
  qed
  have v4: "\<forall>n. n \<notin> fst ` set (item # items) \<longrightarrow> self' n = self n"
    using frame off by (auto simp: item)
  show ?case using step v1 v2 v3 v4 by blast
qed

text \<open>
  Claim C8, as amended. For every call \<^verbatim>\<open>update(**kwargs)\<close> in which each keyword whose
  value is None names an attribute that the generator already has, the call returns; every
  keyword whose value is not None is assigned as generator state, a keyword whose value is
  None and every attribute that is not named keep their previous value, and the returned
  tuple holds, in keyword order, the current values of all named attributes, the ones not
  updated included.
\<close>

theorem update_merges_and_reads_back:
  assumes "distinct (map fst kwargs)"
    and "\<forall>n. (n, None) \<in> set kwargs \<longrightarrow> n \<in> dom self"
  shows "\<exists>vs self'. update kwargs self = (Inr vs, self')
           \<and> map Some vs = map (self' \<circ> fst) kwargs
           \<and> (\<forall>n v. (n, Some v) \<in> set kwargs \<longrightarrow> self' n = Some v)
           \<and> (\<forall>n. (n, None) \<in> set kwargs \<longrightarrow> self' n = self n)
           \<and> (\<forall>n. n \<notin> fst ` set kwargs \<longrightarrow> self' n = self n)"
  using update_loop_ok [OF assms, of "[]"] by (simp add: update_def)

theorem update_merges_and_reads_back_witness:
  "distinct (map fst [(''alpha'', Some (2::real)), (''k'', None)])
   \<and> ''k'' \<in> dom [''alpha'' \<mapsto> 0::real, ''k'' \<mapsto> 1, ''scale'' \<mapsto> 1 / 10]
   \<and> (\<exists>vs self'.
         update [(''alpha'', Some (2::real)), (''k'', None)]
                [''alpha'' \<mapsto> 0, ''k'' \<mapsto> 1, ''scale'' \<mapsto> 1 / 10] = (Inr vs, self')
         \<and> map Some vs = map (self' \<circ> fst) [(''alpha'', Some (2::real)), (''k'', None)]
         \<and> self' ''alpha'' = Some 2 \<and> self' ''k'' = Some 1 \<and> self' ''scale'' = Some (1 / 10))"
proof -
  let ?K = "[(''alpha'', Some (2::real)), (''k'', None)]"
  let ?S = "[''alpha'' \<mapsto> 0::real, ''k'' \<mapsto> 1, ''scale'' \<mapsto> 1 / 10]"
  have d: "distinct (map fst ?K)" by simp
  have p: "\<forall>n. (n, None) \<in> set ?K \<longrightarrow> n \<in> dom ?S" by simp
  from update_merges_and_reads_back [OF d p]
  obtain vs self' where r: "update ?K ?S = (Inr vs, self')"
    and v: "map Some vs = map (self' \<circ> fst) ?K"
    and a: "\<forall>n v. (n, Some v) \<in> set ?K \<longrightarrow> self' n = Some v"
    and b: "\<forall>n. (n, None) \<in> set ?K \<longrightarrow> self' n = ?S n"
    and c: "\<forall>n. n \<notin> fst ` set ?K \<longrightarrow> self' n = ?S n"
    by blast
  have "self' ''alpha'' = Some 2" using a by simp
  moreover have "self' ''k'' = Some 1" using b by simp
  moreover have "self' ''scale'' = Some (1 / 10)" using c by simp
  ultimately show ?thesis using d r v by auto
qed

text \<open>
  Claim C8 as stated fails: a keyword whose value is None and whose name the object does
  not have makes \<^verbatim>\<open>getattr\<close> raise AttributeError, nothing is returned, and the
  keywords after it are never assigned, their values not being None notwithstanding.
\<close>

theorem update_none_for_missing_attribute_raises:
  "fst (update [(''scale'', Some (2::real)), (''foo'', None), (''alpha'', Some 1)]
               [''scale'' \<mapsto> 1, ''alpha'' \<mapsto> 0]) = Inl AttributeError
   \<and> snd (update [(''scale'', Some (2::real)), (''foo'', None), (''alpha'', Some 1)]
               [''scale'' \<mapsto> 1, ''alpha'' \<mapsto> 0]) ''alpha'' = Some 0"
  by (simp add: update_def)

section \<open>Seeding a generator\<close>

lemma manual_seed_in_range:
  "- (2 ^ 63) \<le> s \<Longrightarrow> s < 2 ^ 64 \<Longrightarrow> manual_seed s = Inr (seeded (word_of_int s))"
  by (simp add: manual_seed_def)

lemma uint_seed_bounds: "0 \<le> uint (w :: 64 word) \<and> uint w < 2 ^ 64"
  using uint_lt2p [of w] by simp

lemma int_seed_range: "0 \<le> (u :: int) \<Longrightarrow> - 1 \<le> d \<Longrightarrow> - (2 ^ 63) \<le> u + d"
  by simp

lemma manual_seed_uint_shift:
  assumes "- 1 \<le> d" "uint (w :: 64 word) + d < 2 ^ 64"
  shows "manual_seed (uint w + d) = Inr (seeded (w + word_of_int d))"
proof -
  have "0 \<le> uint w" by simp
  then have "- (2 ^ 63) \<le> uint w + d" using assms(1) by (rule int_seed_range)
  with assms(2) show ?thesis by (simp add: manual_seed_def)
qed

lemma manual_seed_initial_seed: "manual_seed (uint (w :: 64 word)) = Inr (seeded w)"
  using manual_seed_uint_shift [of 0 w] uint_seed_bounds [of w] by simp

lemma manual_seed_pred: "manual_seed (uint (w :: 64 word) - 1) = Inr (seeded (w - 1))"
proof -
  have "uint w + (- 1) < 2 ^ 64" using uint_seed_bounds [of w] by linarith
  from manual_seed_uint_shift [OF _ this] show ?thesis by simp
qed

lemma uint_max_seed: "uint (- 1 :: 64 word) = 2 ^ 64 - 1"
  by (simp add: unsigned_minus_1_eq_mask mask_eq_exp_minus_1)

lemma uint_seed_max: "uint (w :: 64 word) = 2 ^ 64 - 1 \<longleftrightarrow> w = - 1"
proof
  assume "uint w = 2 ^ 64 - 1"
  then have "uint w = uint (- 1 :: 64 word)" by (simp only: uint_max_seed)
  then show "w = - 1" by (simp only: word_uint_eq_iff)
next
  assume "w = - 1"
  then show "uint w = 2 ^ 64 - 1" by (simp only: uint_max_seed)
qed

lemma manual_seed_succ:
  "manual_seed (uint (w :: 64 word) + 1) = (if w = - 1 then Inl RuntimeError else Inr (seeded (w + 1)))"
proof (cases "w = - 1")
  case True
  then have "uint w + 1 = 2 ^ 64" using uint_max_seed by simp
  then have "manual_seed (uint w + 1) = Inl RuntimeError" by (simp add: manual_seed_def)
  with True show ?thesis by simp
next
  case False
  then have "uint w \<noteq> 2 ^ 64 - 1" using uint_seed_max [of w] by simp
  then have "uint w + 1 < 2 ^ 64" using uint_seed_bounds [of w] by linarith
  from manual_seed_uint_shift [OF _ this] False show ?thesis by simp
qed


section \<open>What the loops leave untouched\<close>

text \<open>
  Drawing from the generator, and every loop of the module, changes nothing of the
  instance but its generator.
\<close>

lemma randn_frame [simp]:
  "(snd (randn orc self sz))\<lparr>self_generator := g\<rparr> = self\<lparr>self_generator := g\<rparr>"
  by (simp add: randn_def split_def Let_def)

lemma rand_frame [simp]:
  "(snd (rand orc self sz))\<lparr>self_generator := g\<rparr> = self\<lparr>self_generator := g\<rparr>"
  by (simp add: rand_def split_def Let_def)

lemma frame_last_seed:
  "a\<lparr>self_generator := g\<rparr> = b\<lparr>self_generator := g\<rparr> \<Longrightarrow> self_last_seed a = self_last_seed b"
  by (drule arg_cong [of _ _ self_last_seed]) simp

lemma frame_class:
  "a\<lparr>self_generator := g\<rparr> = b\<lparr>self_generator := g\<rparr> \<Longrightarrow> self_class a = self_class b"
  by (drule arg_cong [of _ _ self_class]) simp

lemma frame_size:
  "a\<lparr>self_generator := g\<rparr> = b\<lparr>self_generator := g\<rparr> \<Longrightarrow> self_size a = self_size b"
  by (drule arg_cong [of _ _ self_size]) simp

lemma randn_last_seed [simp]: "self_last_seed (snd (randn orc self sz)) = self_last_seed self"
  by (rule frame_last_seed [where g = undefined]) simp

lemma rand_last_seed [simp]: "self_last_seed (snd (rand orc self sz)) = self_last_seed self"
  by (rule frame_last_seed [where g = undefined]) simp

lemma randn_size [simp]: "self_size (snd (randn orc self sz)) = self_size self"
  by (rule frame_size [where g = undefined]) simp

lemma randn_class [simp]: "self_class (snd (randn orc self sz)) = self_class self"
  by (rule frame_class [where g = undefined]) simp

lemma randn_shape [simp]: "shape (fst (randn orc self sz)) = sz"
  by (simp add: randn_def split_def Let_def new_tensor_def)

lemma pyramid_loop_frame:
  "(snd (pyramid_loop orc ext dims is (x, r, self)))\<lparr>self_generator := g\<rparr>
     = self\<lparr>self_generator := g\<rparr>"
proof (induction "is" arbitrary: x r self)
  case Nil
  then show ?case by simp
next
  case (Cons i "is")
  show ?case
    by (simp add: Let_def split_def Cons.IH split: sum.splits)
qed

lemma hires_loop_frame:
  "(snd (hires_loop orc ext dims is (noise, h, w, t, self)))\<lparr>self_generator := g\<rparr>
     = self\<lparr>self_generator := g\<rparr>"
proof (induction "is" arbitrary: noise h w t self)
  case Nil
  then show ?case by simp
next
  case (Cons i "is")
  show ?case
    by (simp add: Let_def split_def Cons.IH split: sum.splits)
qed

lemma interpolated_loop_frame:
  "(snd (interpolated_loop orc ext dims is (noise, ms, h, w, t, self)))\<lparr>self_generator := g\<rparr>
     = self\<lparr>self_generator := g\<rparr>"
proof (induction "is" arbitrary: noise ms h w t self)
  case Nil
  then show ?case by simp
next
  case (Cons i "is")
  show ?case
    by (simp add: Let_def split_def Cons.IH split: sum.splits)
qed

lemma cascade_loop_frame:
  "(snd (snd (cascade_loop orc ext sr is (eps, ms, self))))\<lparr>self_generator := g\<rparr>
     = self\<lparr>self_generator := g\<rparr>"
proof (induction "is" arbitrary: eps ms self)
  case Nil
  then show ?case by simp
next
  case (Cons i "is")
  show ?case
    by (simp add: Let_def split_def Cons.IH)
qed

lemma perlin_noise_frame [simp]:
  "(snd (perlin_noise orc grid out n self))\<lparr>self_generator := g\<rparr> = self\<lparr>self_generator := g\<rparr>"
  by (simp add: perlin_noise_def Let_def split_def)

lemma perlin_loop_5d_frame:
  "(snd (perlin_loop_5d orc chw ps (noise, self)))\<lparr>self_generator := g\<rparr>
     = self\<lparr>self_generator := g\<rparr>"
proof (induction ps arbitrary: noise self)
  case Nil
  then show ?case by simp
next
  case (Cons p ps)
  obtain tt i where p: "p = (tt, i)" by (cases p)
  define r where "r = perlin_noise orc (snd chw) (snd chw) (fst chw) self"
  have f: "(snd r)\<lparr>self_generator := g\<rparr> = self\<lparr>self_generator := g\<rparr>"
    by (simp add: r_def)
  show ?case
  proof (cases "fst r")
    case (Inl e)
    then show ?thesis using f
      by (simp add: p split_def r_def [symmetric] split: sum.splits)
  next
    case (Inr ps')
    then show ?thesis using f Cons.IH [of _ "snd r"]
      by (simp add: p split_def Let_def r_def [symmetric] split: sum.splits)
  qed
qed

lemma perlin_loop_4d_frame:
  "(snd (perlin_loop_4d orc chw is (noise, self)))\<lparr>self_generator := g\<rparr>
     = self\<lparr>self_generator := g\<rparr>"
proof (induction "is" arbitrary: noise self)
  case Nil
  then show ?case by simp
next
  case (Cons i "is")
  define r where "r = perlin_noise orc (snd chw) (snd chw) (fst chw) self"
  have f: "(snd r)\<lparr>self_generator := g\<rparr> = self\<lparr>self_generator := g\<rparr>"
    by (simp add: r_def)
  show ?case
  proof (cases "fst r")
    case (Inl e)
    then show ?thesis using f
      by (simp add: split_def r_def [symmetric] split: sum.splits)
  next
    case (Inr ps')
    then show ?thesis using f Cons.IH [of _ "snd r"]
      by (simp add: split_def Let_def r_def [symmetric] split: sum.splits)
  qed
qed

section \<open>The invocation counter\<close>

lemma pyramid_loop_last_seed [simp]:
  "self_last_seed (snd (pyramid_loop orc ext dims is (x, r, self))) = self_last_seed self"
  by (rule frame_last_seed [where g = undefined]) (rule pyramid_loop_frame)

lemma hires_loop_last_seed [simp]:
  "self_last_seed (snd (hires_loop orc ext dims is (noise, h, w, t, self))) = self_last_seed self"
  by (rule frame_last_seed [where g = undefined]) (rule hires_loop_frame)

lemma interpolated_loop_last_seed [simp]:
  "self_last_seed (snd (interpolated_loop orc ext dims is (noise, ms, h, w, t, self)))
     = self_last_seed self"
  by (rule frame_last_seed [where g = undefined]) (rule interpolated_loop_frame)

lemma cascade_loop_last_seed [simp]:
  "self_last_seed (snd (snd (cascade_loop orc ext sr is (eps, ms, self)))) = self_last_seed self"
  by (rule frame_last_seed [where g = undefined]) (rule cascade_loop_frame)

lemma perlin_loop_5d_last_seed [simp]:
  "self_last_seed (snd (perlin_loop_5d orc chw ps (noise, self))) = self_last_seed self"
  by (rule frame_last_seed [where g = undefined]) (rule perlin_loop_5d_frame)

lemma perlin_loop_4d_last_seed [simp]:
  "self_last_seed (snd (perlin_loop_4d orc chw is (noise, self))) = self_last_seed self"
  by (rule frame_last_seed [where g = undefined]) (rule perlin_loop_4d_frame)















lemma construct_registered:
  assumes "NOISE_GENERATOR_CLASSES noise_type = Some (subclass_init cls set_params)"
    and "- (2 ^ 63) \<le> seed" and "seed < 2 ^ 64"
  shows "construct noise_type x seed alpha k =
           Inr ((if noise_type = ''fractal'' then (\<lambda>g. g\<lparr>self_alpha := alpha, self_k := k\<rparr>) else (\<lambda>g. g))
                  (set_params ((new_instance x (shape x) (dtype x) (layout x) (device x) seed
                                  (seeded (word_of_int seed))
                                  (Some (291675 / 10 ^ 7)) (Some (14614642 / 10 ^ 6)))
                               \<lparr>self_class := cls\<rparr>)))"
  using assms
  by (simp add: construct_def NoiseGenerator_init_def subclass_init_def merge_def manual_seed_def)

lemma registry_gaussian:
  "NOISE_GENERATOR_CLASSES ''gaussian''
     = Some (subclass_init GaussianNoiseGenerator (\<lambda>self. self\<lparr>self_mean := 0, self_std := 1\<rparr>))"
  by (simp add: NOISE_GENERATOR_CLASSES_def GaussianNoiseGenerator_init_def)



lemma registry_cascade:
  "NOISE_GENERATOR_CLASSES ''pyramid-cascade_B''
     = Some (subclass_init CascadeBPyramidNoiseGenerator
               (\<lambda>self. self\<lparr>self_levels := 10, self_mode := ''nearest'', self_size_range := Some (1, 16)\<rparr>))"
  by (simp add: NOISE_GENERATOR_CLASSES_def CascadeBPyramidNoiseGenerator_init_def)



section \<open>Cascade-B on spatiotemporal sizes\<close>

text \<open>
  Claim C9. Calling the Cascade-B pyramid generator on a 5-D size raises
  NotImplementedError (the Unsupported condition) at once: the instance is as before the
  call but for the merged \<^verbatim>\<open>levels\<close> and \<^verbatim>\<open>mode\<close>, so that nothing was drawn from its
  generator and the counter was not advanced. On a 4-D size the call does not raise
  NotImplementedError.
\<close>

theorem cascade_b_unsupported_on_5d:
  "(length (self_size self) = 5 \<longrightarrow>
      CascadeBPyramidNoiseGenerator_call orc ext levels mode_kw size_range self =
        (Inl NotImplementedError,
         self\<lparr>self_levels := merge levels (self_levels self),
              self_mode := merge mode_kw (self_mode self)\<rparr>))
   \<and> (length (self_size self) = 4 \<longrightarrow>
      fst (CascadeBPyramidNoiseGenerator_call orc ext levels mode_kw size_range self)
        \<noteq> Inl NotImplementedError)"
  by (simp add: CascadeBPyramidNoiseGenerator_call_def Let_def split_def split: option.splits)

theorem cascade_b_unsupported_on_5d_witness:
  "(\<exists>g. construct ''pyramid-cascade_B'' (latent_of [1, 4, 2, 8, 8]) 42 1 1 = Inr g
        \<and> length (self_size g) = 5
        \<and> fst (CascadeBPyramidNoiseGenerator_call (listed_sampler [] [] []) plain_extern
                 (Some 10) (Some ''nearest'') (Some (1, 16)) g) = Inl NotImplementedError
        \<and> self_generator (snd (CascadeBPyramidNoiseGenerator_call (listed_sampler [] [] []) plain_extern
                 (Some 10) (Some ''nearest'') (Some (1, 16)) g)) = seeded 42)
   \<and> (\<exists>g. construct ''pyramid-cascade_B'' (latent_of [1, 4, 8, 8]) 42 1 1 = Inr g
        \<and> length (self_size g) = 4
        \<and> fst (CascadeBPyramidNoiseGenerator_call (listed_sampler [] [] []) plain_extern
                 (Some 10) (Some ''nearest'') (Some (1, 16)) g) \<noteq> Inl NotImplementedError)"
proof -
  let ?g5 = "(new_instance (latent_of [1, 4, 2, 8, 8]) [1, 4, 2, 8, 8] ''float32'' ''strided'' ''cpu'' 42
                (seeded 42) (Some (291675 / 10 ^ 7)) (Some (14614642 / 10 ^ 6)))
             \<lparr>self_class := CascadeBPyramidNoiseGenerator, self_levels := 10,
               self_mode := ''nearest'', self_size_range := Some (1, 16)\<rparr>"
  let ?g4 = "(new_instance (latent_of [1, 4, 8, 8]) [1, 4, 8, 8] ''float32'' ''strided'' ''cpu'' 42
                (seeded 42) (Some (291675 / 10 ^ 7)) (Some (14614642 / 10 ^ 6)))
             \<lparr>self_class := CascadeBPyramidNoiseGenerator, self_levels := 10,
               self_mode := ''nearest'', self_size_range := Some (1, 16)\<rparr>"
  have c5: "construct ''pyramid-cascade_B'' (latent_of [1, 4, 2, 8, 8]) 42 1 1 = Inr ?g5"
    by (simp add: construct_registered [OF registry_cascade] latent_of_def)
  have c4: "construct ''pyramid-cascade_B'' (latent_of [1, 4, 8, 8]) 42 1 1 = Inr ?g4"
    by (simp add: construct_registered [OF registry_cascade] latent_of_def)
  have l5: "length (self_size ?g5) = 5" by (simp add: new_instance_def)
  have l4: "length (self_size ?g4) = 4" by (simp add: new_instance_def)
  note t5 = cascade_b_unsupported_on_5d
      [of ?g5 "listed_sampler [] [] []" plain_extern "Some 10" "Some ''nearest''" "Some (1, 16)"]
  note t4 = cascade_b_unsupported_on_5d
      [of ?g4 "listed_sampler [] [] []" plain_extern "Some 10" "Some ''nearest''" "Some (1, 16)"]
  have a: "fst (CascadeBPyramidNoiseGenerator_call (listed_sampler [] [] []) plain_extern
                 (Some 10) (Some ''nearest'') (Some (1, 16)) ?g5) = Inl NotImplementedError"
    using t5 l5 by simp
  have b: "self_generator (snd (CascadeBPyramidNoiseGenerator_call (listed_sampler [] [] []) plain_extern
                 (Some 10) (Some ''nearest'') (Some (1, 16)) ?g5)) = seeded 42"
    using t5 l5 by (simp add: new_instance_def)
  have c: "fst (CascadeBPyramidNoiseGenerator_call (listed_sampler [] [] []) plain_extern
                 (Some 10) (Some ''nearest'') (Some (1, 16)) ?g4) \<noteq> Inl NotImplementedError"
    using t4 l4 by simp
  show ?thesis using c5 c4 l5 l4 a b c by blast
qed

section \<open>Construction\<close>

lemma construction_from_reference_tensor:
  assumes "generator_kw = None \<longrightarrow> - (2 ^ 63) \<le> seed \<and> seed < 2 ^ 64"
  shows "NoiseGenerator_init (Some x) size_kw dtype_kw layout_kw device_kw seed generator_kw sigma_min sigma_max
     = Inr (new_instance x (merge size_kw (shape x)) (merge dtype_kw (dtype x))
              (merge layout_kw (layout x)) (merge device_kw (device x))
              seed (case generator_kw of None \<Rightarrow> seeded (word_of_int seed) | Some g \<Rightarrow> g)
              sigma_min sigma_max)"
  using assms by (simp add: NoiseGenerator_init_def manual_seed_def split: option.splits)

text \<open>
  Claim C7, on the code: constructing a generator without a reference tensor never
  succeeds. Whatever explicit size, dtype, layout and device are given, the constructor
  passes them to \<^verbatim>\<open>torch.zeros\<close> by position (line 100), which raises TypeError. (From a
  reference tensor and a seed that is a 64-bit number the construction succeeds, and each
  explicit value overrides the inherited one: \<open>construction_from_reference_tensor\<close>.)
\<close>

theorem construction_without_reference_tensor_raises:
  "NoiseGenerator_init None size_kw dtype_kw layout_kw device_kw seed generator_kw sigma_min sigma_max
     = Inl TypeError"
  by (simp add: NoiseGenerator_init_def torch_zeros_def split: option.splits)

section \<open>The scoped random state of the Laplace and Student-t generators\<close>









section \<open>The spectral density of the fractal generator\<close>

lemma length_fftfreq [simp]: "length (fftfreq n) = n"
  by (simp add: fftfreq_def)

lemma fftfreq_1: "fftfreq (Suc 0) = [0]"
  by (simp add: fftfreq_def)

lemma fftfreq_2: "fftfreq 2 = [0, -1]"
  by (simp add: fftfreq_def upt_rec)

text \<open>
  On a 4-D size the density is what the specification says: \<open>k / freq powr (alpha * scale)\<close>
  at every bin but the zero-frequency bin, where it is 0; the frequency magnitude is at
  least \<open>1e-10\<close>, so that nothing is divided by zero.
\<close>

lemma freq_2d_floor:
  assumes "y < h" "x < w"
  shows "freq_2d h w ! y ! x \<ge> 1 / 10 ^ 10"
  using assms by (simp add: freq_2d_def)

lemma spectral_density_2d_bins:
  assumes "y < h" "x < w"
  shows "spectral_density_2d k alpha scale h w ! y ! x =
           (if y = 0 \<and> x = 0 then 0 else k / (freq_2d h w ! y ! x) powr (alpha * scale))"
  using assms
  by (auto simp add: spectral_density_2d_def Let_def freq_2d_def nth_list_update)

text \<open>
  On a 5-D size the assignment \<^verbatim>\<open>spectral_density[0, 0] = 0\<close> zeroes the density at every
  bin with \<open>t = 0\<close> and \<open>y = 0\<close>, whatever its \<open>x\<close> frequency.
\<close>

lemma spectral_density_3d_bins:
  assumes "tt < t" "y < h" "x < w"
  shows "spectral_density_3d k alpha scale t h w ! tt ! y ! x =
           (if tt = 0 \<and> y = 0 then 0 else k / (freq_3d t h w ! tt ! y ! x) powr (alpha * scale))"
  using assms
  by (auto simp add: spectral_density_3d_def Let_def freq_3d_def nth_list_update)

text \<open>
  Claim C4, on the code. For the 5-D size \<open>(b, c, 1, 1, 2)\<close> with \<open>alpha = 0\<close> and \<open>k = 1\<close> the
  frequency grid has the zero-frequency bin (floored to \<open>1e-10\<close>) and one bin of magnitude 1.
  The density that the generator uses is 0 at both, where the claim has \<open>k = 1\<close> at the bin
  of magnitude 1. On the 4-D size \<open>(b, c, 1, 2)\<close> with the same frequencies the density is 1
  there.
\<close>

theorem fractal_density_5d_zeroes_nonzero_bin:
  "freq_3d 1 1 2 = [[[1 / 10 ^ 10, 1]]]
   \<and> spectral_density_3d 1 0 (1 / 10) 1 1 2 = [[[0, 0]]]
   \<and> freq_2d 1 2 = [[1 / 10 ^ 10, 1]]
   \<and> spectral_density_2d 1 0 (1 / 10) 1 2 = [[0, 1]]"
  by (simp add: spectral_density_3d_def spectral_density_2d_def freq_3d_def freq_2d_def
        fftfreq_1 fftfreq_2)

section \<open>Mean and standard deviation of the returned tensor\<close>

lemma sum_list_affine:
  "sum_list (map (\<lambda>x. (x - c) / s) xs) = (sum_list xs - real (length xs) * c) / (s::real)"
  by (induction xs) (simp_all add: add_divide_distrib [symmetric] algebra_simps)

lemma mean_affine:
  assumes "xs \<noteq> []"
  shows "mean (map (\<lambda>x. (x - c) / s) xs) = (mean xs - c) / s"
  using assms by (simp add: mean_def sum_list_affine field_simps)








lemma mean_div_std: "xs \<noteq> [] \<Longrightarrow> mean (div_std xs) = mean xs / std xs"
  using mean_affine [of xs 0 "std xs"] by (simp add: div_std_def)




lemma std_eqI:
  assumes "0 \<le> s" "sum_list (map (\<lambda>x. (x - mean xs)\<^sup>2) xs) / (real (length xs) - 1) = s\<^sup>2"
  shows "std xs = s"
  using assms by (simp add: std_def)














lemma std_of_minus1_0_1: "std [-1, 0, 1] = 1"
  by (rule std_eqI) (simp_all add: mean_def)





lemma normalize_minus1_0_1: "normalize [-1, 0, 1] = [-1, 0, 1]"
  by (simp add: normalize_def std_of_minus1_0_1) (simp add: mean_def)




lemma gaussian_prepared_1113:
  "prepare_noise (listed_sampler [-1, 0, 1] [] []) plain_extern (latent_of [1, 1, 1, 3])
          42 ''gaussian'' None 1 1 None 0 (seeded 0)
     = (Inr ((latent_of [1, 1, 1, 3])\<lparr>vals := [-1, 0, 1]\<rparr>), seeded 0)"
  by (simp add: prepare_noise_def construct_registered [OF registry_gaussian] noise_call_def with_rng_def
        GaussianNoiseGenerator_call_def kw_real_def sigma_kwargs_def randn_def draws_def
        new_instance_def manual_seed_def seeded_def listed_sampler_def stream_def latent_of_def numel_def
        new_tensor_def Let_def split_def merge_def upt_rec normalize_minus1_0_1)







section \<open>Shapes of the returned tensors\<close>


lemma pyramid_loop_size [simp]: "self_size (snd (pyramid_loop orc ext dims is (x, r, self))) = self_size self"
  by (rule frame_size [where g = undefined]) (rule pyramid_loop_frame)

lemma pyramid_loop_class [simp]: "self_class (snd (pyramid_loop orc ext dims is (x, r, self))) = self_class self"
  by (rule frame_class [where g = undefined]) (rule pyramid_loop_frame)

lemma hires_loop_size [simp]: "self_size (snd (hires_loop orc ext dims is (noise, h, w, t, self))) = self_size self"
  by (rule frame_size [where g = undefined]) (rule hires_loop_frame)

lemma hires_loop_class [simp]: "self_class (snd (hires_loop orc ext dims is (noise, h, w, t, self))) = self_class self"
  by (rule frame_class [where g = undefined]) (rule hires_loop_frame)

lemma interpolated_loop_size [simp]: "self_size (snd (interpolated_loop orc ext dims is (noise, ms, h, w, t, self))) = self_size self"
  by (rule frame_size [where g = undefined]) (rule interpolated_loop_frame)

lemma interpolated_loop_class [simp]: "self_class (snd (interpolated_loop orc ext dims is (noise, ms, h, w, t, self))) = self_class self"
  by (rule frame_class [where g = undefined]) (rule interpolated_loop_frame)

lemma cascade_loop_size [simp]: "self_size (snd (snd (cascade_loop orc ext sr is (eps, ms, self)))) = self_size self"
  by (rule frame_size [where g = undefined]) (rule cascade_loop_frame)

lemma cascade_loop_class [simp]: "self_class (snd (snd (cascade_loop orc ext sr is (eps, ms, self)))) = self_class self"
  by (rule frame_class [where g = undefined]) (rule cascade_loop_frame)

lemma perlin_loop_5d_size [simp]: "self_size (snd (perlin_loop_5d orc chw ps (noise, self))) = self_size self"
  by (rule frame_size [where g = undefined]) (rule perlin_loop_5d_frame)

lemma perlin_loop_5d_class [simp]: "self_class (snd (perlin_loop_5d orc chw ps (noise, self))) = self_class self"
  by (rule frame_class [where g = undefined]) (rule perlin_loop_5d_frame)

lemma perlin_loop_4d_size [simp]: "self_size (snd (perlin_loop_4d orc chw is (noise, self))) = self_size self"
  by (rule frame_size [where g = undefined]) (rule perlin_loop_4d_frame)

lemma perlin_loop_4d_class [simp]: "self_class (snd (perlin_loop_4d orc chw is (noise, self))) = self_class self"
  by (rule frame_class [where g = undefined]) (rule perlin_loop_4d_frame)

lemma rand_size [simp]: "self_size (snd (rand orc self sz)) = self_size self"
  by (rule frame_size [where g = undefined]) simp

lemma rand_class [simp]: "self_class (snd (rand orc self sz)) = self_class self"
  by (rule frame_class [where g = undefined]) simp

lemma rand_shape [simp]: "shape (fst (rand orc self sz)) = sz"
  by (simp add: rand_def split_def Let_def new_tensor_def)

lemma iadd_shape: "iadd a b = Inr a' \<Longrightarrow> shape a' = shape a"
  by (auto simp: iadd_def split: if_splits)

lemma iadd_time_slice_shape: "iadd_time_slice a tt b = Inr a' \<Longrightarrow> shape a' = shape a"
  by (auto simp: iadd_time_slice_def Let_def split: if_splits)

lemma pyramid_loop_shape:
  "fst (pyramid_loop orc ext dims is (x, r, self)) = Inr t \<Longrightarrow> shape t = shape x"
proof (induction "is" arbitrary: x r self)
  case Nil
  then show ?case by simp
next
  case (Cons i "is")
  then show ?case
    by (auto simp add: Let_def split_def split: sum.splits dest!: iadd_shape)
qed

lemma hires_loop_shape:
  "fst (hires_loop orc ext dims is (x, h, w, t0, self)) = Inr t \<Longrightarrow> shape t = shape x"
proof (induction "is" arbitrary: x h w t0 self)
  case Nil
  then show ?case by simp
next
  case (Cons i "is")
  then show ?case
    by (auto simp add: Let_def split_def split: sum.splits if_splits dest!: iadd_shape)
qed

lemma interpolated_loop_shape:
  "fst (interpolated_loop orc ext dims is (x, ms, h, w, t0, self)) = Inr (t, ms') \<Longrightarrow> shape t = shape x"
proof (induction "is" arbitrary: x ms h w t0 self)
  case Nil
  then show ?case by simp
next
  case (Cons i "is")
  then show ?case
    by (auto simp add: Let_def split_def split: sum.splits if_splits dest!: iadd_shape)
qed

lemma cascade_loop_shape:
  "shape (fst (cascade_loop orc ext sr is (eps, ms, self))) = shape eps"
proof (induction "is" arbitrary: eps ms self)
  case Nil
  then show ?case by simp
next
  case (Cons i "is")
  show ?case
    by (simp add: Let_def split_def Cons.IH)
qed

lemma perlin_loop_5d_shape:
  "fst (perlin_loop_5d orc chw ps (x, self)) = Inr t \<Longrightarrow> shape t = shape x"
proof (induction ps arbitrary: x self)
  case Nil
  then show ?case by simp
next
  case (Cons p ps)
  obtain tt i where p: "p = (tt, i)" by (cases p)
  show ?case using Cons.prems Cons.IH
    by (auto simp add: p Let_def split_def split: sum.splits dest!: iadd_time_slice_shape)
qed

lemma perlin_loop_4d_shape:
  "fst (perlin_loop_4d orc chw is (x, self)) = Inr t \<Longrightarrow> shape t = shape x"
proof (induction "is" arbitrary: x self)
  case Nil
  then show ?case by simp
next
  case (Cons p ps)
  show ?case using Cons.prems Cons.IH
    by (auto simp add: Let_def split_def split: sum.splits dest!: iadd_shape)
qed


lemma noise_call_class_size:
  "self_class (fst (snd (noise_call orc ext kwargs (self, torch_rng)))) = self_class self
   \<and> self_size (fst (snd (noise_call orc ext kwargs (self, torch_rng)))) = self_size self"
  by (cases "self_class self")
     (simp_all add: noise_call_def with_rng_def NoiseGenerator_call_def BrownianNoiseGenerator_call_def
        UniformNoiseGenerator_call_def GaussianNoiseGenerator_call_def
        GaussianBackwardsNoiseGenerator_call_def LaplacianNoiseGenerator_call_def
        StudentTNoiseGenerator_call_def WaveletNoiseGenerator_call_def SimplexNoiseGenerator_call_def
        FractalNoiseGenerator_call_def PyramidNoiseGenerator_call_def HiresPyramidNoiseGenerator_call_def
        InterpolatedPyramidNoiseGenerator_call_def CascadeBPyramidNoiseGenerator_call_def
        PerlinNoiseGenerator_call_def perlin_accumulate_def Let_def split_def
        manual_seed_initial_seed manual_seed_pred manual_seed_succ
        split: sum.splits option.splits)

lemma noise_call_shape:
  assumes "self_class self \<notin> {BrownianNoiseGenerator, SimplexNoiseGenerator, WaveletNoiseGenerator}"
    and "fst (noise_call orc ext kwargs (self, torch_rng)) = Inr t"
  shows "shape t = self_size self"
  using assms
  by (cases "self_class self")
     (auto simp add: noise_call_def with_rng_def NoiseGenerator_call_def
        UniformNoiseGenerator_call_def GaussianNoiseGenerator_call_def
        GaussianBackwardsNoiseGenerator_call_def LaplacianNoiseGenerator_call_def
        StudentTNoiseGenerator_call_def manual_seed_initial_seed manual_seed_pred manual_seed_succ
        FractalNoiseGenerator_call_def PyramidNoiseGenerator_call_def HiresPyramidNoiseGenerator_call_def
        InterpolatedPyramidNoiseGenerator_call_def CascadeBPyramidNoiseGenerator_call_def
        PerlinNoiseGenerator_call_def perlin_accumulate_def Let_def split_def new_tensor_def
        cascade_loop_shape
        split: sum.splits option.splits if_splits
        dest!: pyramid_loop_shape hires_loop_shape interpolated_loop_shape perlin_loop_5d_shape
          perlin_loop_4d_shape)

section \<open>The indexed path of prepare_noise\<close>

lemma noise_loop_successive:
  assumes "successive_calls orc ext kwargs (length is) world = (Inr flds, world')"
  shows "noise_loop orc ext kwargs U is (acc, world)
           = (Inr (acc @ map snd (filter (\<lambda>p. int (fst p) \<in> set U) (zip is flds))), world')"
  using assms
proof (induction "is" arbitrary: acc world flds)
  case Nil
  then show ?case by simp
next
  case (Cons i "is")
  obtain r w1 where c: "noise_call orc ext kwargs world = (r, w1)" by (cases "noise_call orc ext kwargs world")
  from Cons.prems c obtain f where r: "r = Inr f" by (cases r) auto
  obtain r2 w2 where s: "successive_calls orc ext kwargs (length is) w1 = (r2, w2)"
    by (cases "successive_calls orc ext kwargs (length is) w1")
  from Cons.prems c r s obtain fs where r2: "r2 = Inr fs" and fl: "flds = f # fs" and w: "w2 = world'"
    by (cases r2) auto
  show ?case
    using Cons.IH [OF s [unfolded r2 w], of "if int i \<in> set U then acc @ [f] else acc"]
    by (simp add: c r fl)
qed

lemma noise_loop_failure:
  assumes "successive_calls orc ext kwargs (length is) world = (Inl e, world')"
  shows "noise_loop orc ext kwargs U is (acc, world) = (Inl e, world')"
  using assms
proof (induction "is" arbitrary: acc world)
  case Nil
  then show ?case by simp
next
  case (Cons i "is")
  obtain r w1 where c: "noise_call orc ext kwargs world = (r, w1)" by (cases "noise_call orc ext kwargs world")
  show ?case
  proof (cases r)
    case (Inl e')
    then show ?thesis using Cons.prems c by simp
  next
    case (Inr f)
    obtain r2 w2 where s: "successive_calls orc ext kwargs (length is) w1 = (r2, w2)"
      by (cases "successive_calls orc ext kwargs (length is) w1")
    from Cons.prems c Inr s have r2: "r2 = Inl e" and w: "w2 = world'"
      by (cases r2; auto)+
    show ?thesis
      using Cons.IH [OF s [unfolded r2 w]] by (simp add: c Inr)
  qed
qed

lemma successive_calls_length:
  "successive_calls orc ext kwargs n world = (Inr flds, world') \<Longrightarrow> length flds = n"
proof (induction n arbitrary: world flds)
  case 0
  then show ?case by simp
next
  case (Suc n)
  then show ?case
    by (auto split: prod.splits sum.splits)
qed


lemma zip_upt_nth: "zip [0..<length fs] fs = map (\<lambda>i. (i, fs ! i)) [0..<length fs]"
  by (rule nth_equalityI) simp_all

lemma selected_fields:
  "map snd (filter (\<lambda>p. P (fst p)) (zip [0..<length fs] fs))
     = map (\<lambda>i. fs ! i) (filter P [0..<length fs])"
  by (simp add: zip_upt_nth filter_map comp_def)

lemma sorted_le_last: "sorted (xs::int list) \<Longrightarrow> x \<in> set xs \<Longrightarrow> x \<le> last xs"
  by (induction xs) auto

lemma sorted_last_Max:
  assumes "sorted (xs::int list)" "xs \<noteq> []"
  shows "last xs = Max (set xs)"
  using assms by (intro Max_eqI [symmetric]) (auto intro: sorted_le_last)

lemma filter_upt_sorted_nat:
  assumes "sorted (U::int list)" "distinct U" "\<forall>u\<in>set U. 0 \<le> u" "U \<noteq> []"
  shows "filter (\<lambda>i. int i \<in> set U) [0..<nat (last U + 1)] = map nat U"
proof (rule sorted_distinct_set_unique)
  show "sorted (filter (\<lambda>i. int i \<in> set U) [0..<nat (last U + 1)])"
    by (rule sorted_wrt_filter) simp
  show "distinct (filter (\<lambda>i. int i \<in> set U) [0..<nat (last U + 1)])" by simp
  show "sorted (map nat U)"
    unfolding sorted_map using assms(1) by (rule sorted_wrt_mono_rel [rotated]) simp
  show "distinct (map nat U)"
    using assms(2,3) by (auto simp: distinct_map intro!: inj_onI) (metis nat_0_le)
  show "set (filter (\<lambda>i. int i \<in> set U) [0..<nat (last U + 1)]) = set (map nat U)"
  proof (intro set_eqI iffI)
    fix i assume "i \<in> set (filter (\<lambda>i. int i \<in> set U) [0..<nat (last U + 1)])"
    then have "int i \<in> set U" by simp
    then have "nat (int i) \<in> nat ` set U" by (rule imageI)
    then show "i \<in> set (map nat U)" by simp
  next
    fix i assume "i \<in> set (map nat U)"
    then obtain u where u: "u \<in> set U" "i = nat u" by auto
    have "u \<le> last U" using assms(1) u(1) by (rule sorted_le_last)
    moreover have "0 \<le> u" using assms(3) u(1) by simp
    ultimately show "i \<in> set (filter (\<lambda>i. int i \<in> set U) [0..<nat (last U + 1)])"
      using u by auto
  qed
qed

lemma index_takeWhile:
  "x \<in> set xs \<Longrightarrow>
     length (takeWhile (\<lambda>u. u \<noteq> x) xs) < length xs \<and> xs ! length (takeWhile (\<lambda>u. u \<noteq> x) xs) = x"
  by (induction xs) auto

lemma np_unique_props:
  "sorted (np_unique inds)" "distinct (np_unique inds)" "set (np_unique inds) = set inds"
  by (simp_all add: np_unique_def)

lemma indexed_noises_fields:
  assumes "inds \<noteq> []" and "\<forall>i\<in>set inds. 0 \<le> i"
    and "successive_calls orc ext (size_kwargs latent_image) (nat (Max (set inds)) + 1) world
           = (Inr flds, world')"
  shows "indexed_noises orc ext latent_image inds world
           = (Inr (cat0 (map (\<lambda>i. flds ! nat i) inds)), world')"
proof -
  let ?U = "np_unique inds"
  have ne: "?U \<noteq> []" using assms(1) np_unique_props(3) [of inds] by (metis set_empty)
  have nonneg: "\<forall>u\<in>set ?U. 0 \<le> u" using assms(2) by (simp add: np_unique_props)
  have lastU: "last ?U = Max (set inds)"
    using sorted_last_Max [OF np_unique_props(1) ne] by (simp add: np_unique_props)
  have "hd inds \<in> set inds" using assms(1) by simp
  then have "0 \<le> hd inds" "hd inds \<le> Max (set inds)" using assms(2) by simp_all
  then have "0 \<le> Max (set inds)" by simp
  then have m: "nat (last ?U + 1) = nat (Max (set inds)) + 1" using lastU by simp
  have len: "length flds = nat (last ?U + 1)"
    using successive_calls_length [OF assms(3)] m by simp
  have sc: "successive_calls orc ext (size_kwargs latent_image) (length [0..<nat (last ?U + 1)]) world
             = (Inr flds, world')"
    using assms(3) m by simp
  have loop: "noise_loop orc ext (size_kwargs latent_image) ?U [0..<nat (last ?U + 1)] ([], world)
                = (Inr (map (\<lambda>u. flds ! nat u) ?U), world')"
    using noise_loop_successive [OF sc, of ?U "[]"]
      selected_fields [of "\<lambda>i. int i \<in> set ?U" flds]
      filter_upt_sorted_nat [OF np_unique_props(1) np_unique_props(2) nonneg ne]
    by (simp add: len comp_def)
  have inv: "\<And>i. i \<in> set inds \<Longrightarrow>
      length (takeWhile (\<lambda>u. u \<noteq> i) ?U) < length ?U \<and> ?U ! length (takeWhile (\<lambda>u. u \<noteq> i) ?U) = i"
    using index_takeWhile [of _ ?U] by (simp add: np_unique_props)
  have ok: "\<not> list_ex (\<lambda>j. j \<ge> length (map (\<lambda>u. flds ! nat u) ?U)) (np_inverse inds)"
    using inv by (fastforce simp: list_ex_iff np_inverse_def)
  have sel: "map (\<lambda>j. map (\<lambda>u. flds ! nat u) ?U ! j) (np_inverse inds) = map (\<lambda>i. flds ! nat i) inds"
    using inv by (auto simp: np_inverse_def)
  show ?thesis
    using ne loop ok sel by (simp add: indexed_noises_def Let_def gather_cat_def)
qed



lemma successive_calls_shapes:
  assumes "self_class self \<notin> {BrownianNoiseGenerator, SimplexNoiseGenerator, WaveletNoiseGenerator}"
    and "successive_calls orc ext kwargs n (self, torch_rng) = (Inr flds, world')"
  shows "\<forall>f\<in>set flds. shape f = self_size self"
  using assms
proof (induction n arbitrary: self torch_rng flds)
  case 0
  then show ?case by simp
next
  case (Suc n)
  obtain r self1 rng1 where c: "noise_call orc ext kwargs (self, torch_rng) = (r, self1, rng1)"
    by (cases "noise_call orc ext kwargs (self, torch_rng)") auto
  from Suc.prems(2) c obtain f where r: "r = Inr f" by (cases r) auto
  obtain r2 w2 where s: "successive_calls orc ext kwargs n (self1, rng1) = (r2, w2)"
    by (cases "successive_calls orc ext kwargs n (self1, rng1)")
  from Suc.prems(2) c r s obtain fs where r2: "r2 = Inr fs" and fl: "flds = f # fs" and w: "w2 = world'"
    by (cases r2) auto
  have k: "self_class self1 = self_class self" "self_size self1 = self_size self"
    using noise_call_class_size [of orc ext kwargs self torch_rng] c by simp_all
  have f: "shape f = self_size self"
    using noise_call_shape [OF Suc.prems(1), of orc ext kwargs torch_rng f] c r by simp
  have "\<forall>f\<in>set fs. shape f = self_size self1"
    using Suc.IH [of self1 rng1 fs] Suc.prems(1) k s r2 w by simp
  then show ?case using f fl k by simp
qed

lemma gaussian_call_returns:
  assumes "self_class self = GaussianNoiseGenerator"
  shows "\<exists>t self'. noise_call orc ext kwargs (self, torch_rng) = (Inr t, self', torch_rng)
           \<and> self_class self' = GaussianNoiseGenerator
           \<and> self_last_seed self' = self_last_seed self + 1"
  using assms
  by (simp add: noise_call_def with_rng_def GaussianNoiseGenerator_call_def Let_def split_def)

lemma gaussian_successive:
  assumes "self_class self = GaussianNoiseGenerator"
  shows "\<exists>flds self'. successive_calls orc ext kwargs n (self, torch_rng) = (Inr flds, self', torch_rng)
           \<and> self_last_seed self' = self_last_seed self + int n"
  using assms
proof (induction n arbitrary: self)
  case 0
  then show ?case by simp
next
  case (Suc n)
  from gaussian_call_returns [OF Suc.prems, of orc ext kwargs torch_rng]
  obtain t self1 where c: "noise_call orc ext kwargs (self, torch_rng) = (Inr t, self1, torch_rng)"
    and k: "self_class self1 = GaussianNoiseGenerator"
    and l: "self_last_seed self1 = self_last_seed self + 1" by blast
  from Suc.IH [OF k]
  obtain fs self2 where s: "successive_calls orc ext kwargs n (self1, torch_rng) = (Inr fs, self2, torch_rng)"
    and l2: "self_last_seed self2 = self_last_seed self1 + int n" by blast
  show ?case using c s l l2 by simp
qed

lemma indexed_noises_failure:
  assumes "inds \<noteq> []" and "\<forall>i\<in>set inds. 0 \<le> i"
    and "successive_calls orc ext (size_kwargs latent_image) (nat (Max (set inds)) + 1) world
           = (Inl e, world')"
  shows "indexed_noises orc ext latent_image inds world = (Inl e, world')"
proof -
  let ?U = "np_unique inds"
  have ne: "?U \<noteq> []" using assms(1) np_unique_props(3) [of inds] by (metis set_empty)
  have lastU: "last ?U = Max (set inds)"
    using sorted_last_Max [OF np_unique_props(1) ne] by (simp add: np_unique_props)
  have "hd inds \<in> set inds" using assms(1) by simp
  then have "0 \<le> hd inds" "hd inds \<le> Max (set inds)" using assms(2) by simp_all
  then have "0 \<le> Max (set inds)" by simp
  then have m: "nat (last ?U + 1) = nat (Max (set inds)) + 1" using lastU by simp
  have sc: "successive_calls orc ext (size_kwargs latent_image) (length [0..<nat (last ?U + 1)]) world
             = (Inl e, world')"
    using assms(3) m by simp
  show ?thesis
    using ne noise_loop_failure [OF sc, of ?U "[]"] by (simp add: indexed_noises_def Let_def)
qed

lemma cat0_shape:
  assumes "ts \<noteq> []" "\<forall>t\<in>set ts. shape t = b # rest"
  shows "shape (cat0 ts) = (length ts * b) # rest"
proof -
  have "sum_list (map (hd \<circ> shape) ts) = length ts * b"
    using assms(2) by (induction ts) auto
  moreover have "tl (shape (hd ts)) = rest" using assms by (cases ts) auto
  ultimately show ?thesis by (simp add: cat0_def)
qed

lemma indexed_noises_shape:
  assumes "inds \<noteq> []" and "\<forall>i\<in>set inds. 0 \<le> i"
    and "self_class self \<notin> {BrownianNoiseGenerator, SimplexNoiseGenerator, WaveletNoiseGenerator}"
    and "self_size self = b # rest"
    and "indexed_noises orc ext latent_image inds (self, torch_rng) = (Inr t, world')"
  shows "shape t = (length inds * b) # rest"
proof -
  obtain r w1 where sc: "successive_calls orc ext (size_kwargs latent_image) (nat (Max (set inds)) + 1)
                           (self, torch_rng) = (r, w1)"
    by (cases "successive_calls orc ext (size_kwargs latent_image) (nat (Max (set inds)) + 1) (self, torch_rng)")
  show ?thesis
  proof (cases r)
    case (Inl e)
    then show ?thesis using indexed_noises_failure [OF assms(1,2) sc [unfolded Inl]] assms(5) by simp
  next
    case (Inr flds)
    have t: "t = cat0 (map (\<lambda>i. flds ! nat i) inds)"
      using indexed_noises_fields [OF assms(1,2) sc [unfolded Inr]] assms(5) by simp
    have len: "length flds = nat (Max (set inds)) + 1"
      using successive_calls_length [OF sc [unfolded Inr]] by simp
    have sh: "\<forall>f\<in>set flds. shape f = b # rest"
      using successive_calls_shapes [OF assms(3) sc [unfolded Inr]] assms(4) by simp
    have "\<forall>i\<in>set inds. nat i < length flds"
    proof
      fix i assume "i \<in> set inds"
      then have "i \<le> Max (set inds)" by simp
      then show "nat i < length flds" using len by simp
    qed
    then have "\<forall>f\<in>set (map (\<lambda>i. flds ! nat i) inds). shape f = b # rest"
      using sh by auto
    then show ?thesis using cat0_shape [of "map (\<lambda>i. flds ! nat i) inds" b rest] assms(1) t by simp
  qed
qed

lemma gaussian_prepare_indexed:
  assumes "inds \<noteq> []" and "\<forall>i\<in>set inds. 0 \<le> i" and "shape latent_image = b # rest"
    and "- (2 ^ 63) \<le> seed" and "seed < 2 ^ 64"
  shows "\<exists>t. prepare_noise orc ext latent_image seed ''gaussian'' (Some inds) alpha k None var_strength torch_rng
               = (Inr t, torch_rng)
           \<and> shape t = (length inds * b) # rest"
proof -
  let ?g = "(new_instance latent_image (shape latent_image) (dtype latent_image) (layout latent_image)
               (device latent_image) seed (seeded (word_of_int seed)) (Some (291675 / 10 ^ 7)) (Some (14614642 / 10 ^ 6)))
             \<lparr>self_class := GaussianNoiseGenerator, self_mean := 0, self_std := 1\<rparr>"
  have c: "construct ''gaussian'' latent_image seed alpha k = Inr ?g"
    by (simp add: construct_registered [OF registry_gaussian assms(4,5)])
  have k: "self_class ?g = GaussianNoiseGenerator" by simp
  have sz: "self_size ?g = b # rest" using assms(3) by (simp add: new_instance_def)
  from gaussian_successive [OF k, of orc ext "size_kwargs latent_image" "nat (Max (set inds)) + 1" torch_rng]
  obtain flds self' where sc: "successive_calls orc ext (size_kwargs latent_image)
        (nat (Max (set inds)) + 1) (?g, torch_rng) = (Inr flds, self', torch_rng)" by blast
  have ix: "indexed_noises orc ext latent_image inds (?g, torch_rng)
              = (Inr (cat0 (map (\<lambda>i. flds ! nat i) inds)), self', torch_rng)"
    using indexed_noises_fields [OF assms(1,2) sc] .
  have sh: "shape (cat0 (map (\<lambda>i. flds ! nat i) inds)) = (length inds * b) # rest"
    using indexed_noises_shape [OF assms(1,2) _ sz ix] k by simp
  show ?thesis using c ix sh by (simp add: prepare_noise_def)
qed


section \<open>The indexed path of prepare_noise\<close>




lemma successive_calls_class_size:
  "self_class (fst (snd (successive_calls orc ext kwargs n (self, torch_rng)))) = self_class self
   \<and> self_size (fst (snd (successive_calls orc ext kwargs n (self, torch_rng)))) = self_size self"
proof (induction n arbitrary: self torch_rng)
  case 0
  then show ?case by simp
next
  case (Suc n)
  obtain r self1 rng1 where c: "noise_call orc ext kwargs (self, torch_rng) = (r, self1, rng1)"
    by (metis prod_cases3)
  have k: "self_class self1 = self_class self \<and> self_size self1 = self_size self"
    using noise_call_class_size [of orc ext kwargs self torch_rng] c by simp
  show ?case
  proof (cases r)
    case (Inl e)
    then show ?thesis using c k by simp
  next
    case (Inr f)
    obtain r2 self2 rng2 where s: "successive_calls orc ext kwargs n (self1, rng1) = (r2, self2, rng2)"
      by (metis prod_cases3)
    have "self_class self2 = self_class self1 \<and> self_size self2 = self_size self1"
      using Suc.IH [of self1 rng1] s by simp
    then show ?thesis using c Inr s k by (cases r2) simp_all
  qed
qed

























section \<open>Indexed batches\<close>




section \<open>The size keywords of the indexed path\<close>





section \<open>Row-major offsets\<close>

lemma length_unravel [simp]: "length (unravel s i) = length s"
  by (induction s arbitrary: i) auto

lemma ravel_less:
  "list_all2 (<) idx s \<Longrightarrow> ravel s idx < prod_list s"
proof (induction idx s rule: list_all2_induct)
  case Nil
  then show ?case by simp
next
  case (Cons j js d ds)
  have "j * prod_list ds + ravel ds js < (j + 1) * prod_list ds"
    using Cons.IH by simp
  also have "\<dots> \<le> d * prod_list ds"
    using Cons.hyps(1) by (intro mult_le_mono1) simp
  finally show ?case by simp
qed

lemma unravel_ravel:
  "list_all2 (<) idx s \<Longrightarrow> unravel s (ravel s idx) = idx"
proof (induction idx s rule: list_all2_induct)
  case Nil
  then show ?case by simp
next
  case (Cons j js d ds)
  have r: "ravel ds js < prod_list ds" using Cons.hyps(2) by (rule ravel_less)
  show ?case using Cons.IH r by simp
qed

lemma unravel_valid:
  "i < prod_list s \<Longrightarrow> list_all2 (<) (unravel s i) s"
proof (induction s arbitrary: i)
  case Nil
  then show ?case by simp
next
  case (Cons d ds)
  have p: "0 < prod_list ds" using Cons.prems by (cases "prod_list ds = 0") auto
  have "i div prod_list ds < d"
    using Cons.prems p by (simp add: less_mult_imp_div_less mult.commute)
  moreover have "i mod prod_list ds < prod_list ds" using p by simp
  ultimately show ?case using Cons.IH by simp
qed

lemma ravel_unravel:
  "i < prod_list s \<Longrightarrow> ravel s (unravel s i) = i"
proof (induction s arbitrary: i)
  case Nil
  then show ?case by simp
next
  case (Cons d ds)
  have p: "0 < prod_list ds" using Cons.prems by (cases "prod_list ds = 0") auto
  have "i mod prod_list ds < prod_list ds" using p by simp
  then show ?case using Cons.IH by simp
qed

lemma concat_map_upt:
  "concat (map (\<lambda>a. map (f a) [0..<m]) [0..<k]) = map (\<lambda>i. f (i div m) (i mod m)) [0..<k * m]"
proof (induction k)
  case 0
  then show ?case by simp
next
  case (Suc k)
  have c: "map (\<lambda>b. b + k * m) [0..<m] = [k * m..<m + k * m]"
    by (rule map_add_upt)
  have "Suc k * m = k * m + m" by simp
  then have "[0..<Suc k * m] = [0..<k * m + m]" by (rule arg_cong)
  also have "\<dots> = [0..<k * m] @ [k * m..<k * m + m]"
    by (rule upt_add_eq_append) simp
  also have "[k * m..<k * m + m] = map (\<lambda>b. b + k * m) [0..<m]"
    unfolding c by (simp only: add.commute)
  finally have "[0..<Suc k * m] = [0..<k * m] @ map (\<lambda>b. b + k * m) [0..<m]" .
  then have "map (\<lambda>i. f (i div m) (i mod m)) [0..<Suc k * m]
      = map (\<lambda>i. f (i div m) (i mod m)) [0..<k * m] @ map (\<lambda>b. f ((b + k * m) div m) ((b + k * m) mod m)) [0..<m]"
    by (simp add: comp_def)
  also have "map (\<lambda>b. f ((b + k * m) div m) ((b + k * m) mod m)) [0..<m] = map (f k) [0..<m]"
    by (rule map_cong) auto
  finally show ?case using Suc.IH by simp
qed

lemma field_list:
  "concat (map (\<lambda>n. concat (map (\<lambda>Y. map (\<lambda>X. F n Y X) [0..<w]) [0..<h])) [0..<c])
     = map (\<lambda>k. F (unravel [c, h, w] k ! 0) (unravel [c, h, w] k ! 1) (unravel [c, h, w] k ! 2))
           [0..<c * (h * w)]"
proof -
  have "concat (map (\<lambda>n. concat (map (\<lambda>Y. map (\<lambda>X. F n Y X) [0..<w]) [0..<h])) [0..<c])
      = concat (map (\<lambda>n. map (\<lambda>j. F n (j div w) (j mod w)) [0..<h * w]) [0..<c])"
    by (simp add: concat_map_upt)
  also have "\<dots> = map (\<lambda>i. F (i div (h * w)) ((i mod (h * w)) div w) ((i mod (h * w)) mod w)) [0..<c * (h * w)]"
    by (rule concat_map_upt [of "\<lambda>n j. F n (j div w) (j mod w)"])
  finally show ?thesis by simp
qed

section \<open>The 5-D branch of the Perlin generator\<close>

lemma perlin_noise_field:
  assumes "0 < h" "0 < w"
  shows "perlin_noise orc (h, w) (h, w) c self =
           (Inr (squeeze0 [c, h, w],
                 map (\<lambda>k. lattice_field orc (initial_seed (self_generator self)) (offset (self_generator self))
                            (c, h, w) (unravel [c, h, w] k ! 0) (unravel [c, h, w] k ! 1)
                            (unravel [c, h, w] k ! 2))
                     [0..<c * (h * w)]),
            self\<lparr>self_generator := (self_generator self)
                    \<lparr>offset := offset (self_generator self) + c * ((h + 1) * (w + 1))\<rparr>\<rparr>)"
  using assms
  by (simp add: perlin_noise_def rand_def draws_def numel_def new_tensor_def Let_def split_def
        lattice_field_def field_list)

lemma expand_slice_nth:
  assumes "n < b" "ch < c" "y < h" "x < w"
  shows "expand_to [b, c, 1, h, w] [1, c, 1, h, w] p ! ravel [b, c, 1, h, w] [n, ch, 0, y, x]
           = p ! ravel [c, h, w] [ch, y, x]"
proof -
  have v: "list_all2 (<) [n, ch, 0, y, x] [b, c, 1, h, w]" using assms by simp
  have r: "ravel [b, c, 1, h, w] [n, ch, 0, y, x] < prod_list [b, c, 1, h, w]"
    using v by (rule ravel_less)
  have u: "unravel [b, c, 1, h, w] (ravel [b, c, 1, h, w] [n, ch, 0, y, x]) = [n, ch, 0, y, x]"
    using v by (rule unravel_ravel)
  have m: "map2 (\<lambda>d j. if d = 1 then 0 else j) [1, c, 1, h, w] [n, ch, 0, y, x] = [0, ch, 0, y, x]"
    using assms by auto
  have "expand_to [b, c, 1, h, w] [1, c, 1, h, w] p ! ravel [b, c, 1, h, w] [n, ch, 0, y, x]
          = p ! ravel [1, c, 1, h, w] [0, ch, 0, y, x]"
    unfolding expand_to_def using r by (simp only: nth_map length_upt diff_zero nth_upt add_0 u m
        list.size diff_self_eq_0 drop_0)
  also have "ravel [1, c, 1, h, w] [0, ch, 0, y, x] = ravel [c, h, w] [ch, y, x]" by simp
  finally show ?thesis .
qed

lemma unravel5:
  assumes "i < prod_list [b, c, t, h, w]"
  obtains n ch tt y x where "unravel [b, c, t, h, w] i = [n, ch, tt, y, x]"
    "n < b" "ch < c" "tt < t" "y < h" "x < w"
proof -
  have "list_all2 (<) (unravel [b, c, t, h, w] i) [b, c, t, h, w]"
    using assms by (rule unravel_valid)
  then show ?thesis
    using that by (auto simp: list_all2_Cons2)
qed

lemma iadd_time_slice_field:
  assumes "shape a = [b, c, t, h, w]" "2 \<le> c"
  shows "iadd_time_slice a tt ([1, c, 1, h, w], p) =
           Inr (a\<lparr>vals := map (\<lambda>i. vals a ! i +
                                   (if unravel [b, c, t, h, w] i ! 2 = tt
                                    then p ! ravel [c, h, w] [unravel [b, c, t, h, w] i ! 1,
                                                              unravel [b, c, t, h, w] i ! 3,
                                                              unravel [b, c, t, h, w] i ! 4]
                                    else 0))
                             [0..<prod_list [b, c, t, h, w]]\<rparr>)"
proof -
  have bc: "broadcastable [1, c, 1, h, w] [b, c, 1, h, w]"
    by (simp add: broadcastable_def)
  have sl: "[b, c, t, h, w][2 := 1] = [b, c, 1, h, w]"
    by (simp add: numeral_2_eq_2)
  have pt: "(if unravel [b, c, t, h, w] i ! 2 = tt
          then vals a ! i + expand_to [b, c, 1, h, w] [1, c, 1, h, w] p
                              ! ravel [b, c, 1, h, w] ((unravel [b, c, t, h, w] i)[2 := 0])
          else vals a ! i)
      = vals a ! i +
          (if unravel [b, c, t, h, w] i ! 2 = tt
           then p ! ravel [c, h, w] [unravel [b, c, t, h, w] i ! 1, unravel [b, c, t, h, w] i ! 3,
                                     unravel [b, c, t, h, w] i ! 4]
           else 0)"
    if "i \<in> set [0..<prod_list [b, c, t, h, w]]" for i
  proof -
    have i: "i < prod_list [b, c, t, h, w]" using that by simp
    from unravel5 [OF i] obtain n ch tt' y x where
      u: "unravel [b, c, t, h, w] i = [n, ch, tt', y, x]" and
      bd: "n < b" "ch < c" "tt' < t" "y < h" "x < w" by blast
    show ?thesis
      unfolding u using expand_slice_nth [OF bd(1,2,4,5), of p]
      by (simp add: numeral_2_eq_2 numeral_3_eq_3 eval_nat_numeral)
  qed
  have eq: "map (\<lambda>i. if unravel [b, c, t, h, w] i ! 2 = tt
          then vals a ! i + expand_to [b, c, 1, h, w] [1, c, 1, h, w] p
                              ! ravel [b, c, 1, h, w] ((unravel [b, c, t, h, w] i)[2 := 0])
          else vals a ! i) [0..<prod_list [b, c, t, h, w]]
      = map (\<lambda>i. vals a ! i +
          (if unravel [b, c, t, h, w] i ! 2 = tt
           then p ! ravel [c, h, w] [unravel [b, c, t, h, w] i ! 1, unravel [b, c, t, h, w] i ! 3,
                                     unravel [b, c, t, h, w] i ! 4]
           else 0)) [0..<prod_list [b, c, t, h, w]]"
    by (rule map_cong [OF refl]) (rule pt)
  show ?thesis
    unfolding iadd_time_slice_def Let_def fst_conv snd_conv assms(1) sl numel_def
    using bc eq by (simp only: if_True)
qed

lemma field_lookup:
  assumes "i < prod_list [b, c, t, h, w]"
  shows "map (\<lambda>k. F (unravel [c, h, w] k ! 0) (unravel [c, h, w] k ! 1) (unravel [c, h, w] k ! 2))
             [0..<c * (h * w)]
           ! ravel [c, h, w] [unravel [b, c, t, h, w] i ! 1, unravel [b, c, t, h, w] i ! 3,
                              unravel [b, c, t, h, w] i ! 4]
         = F (unravel [b, c, t, h, w] i ! 1) (unravel [b, c, t, h, w] i ! 3) (unravel [b, c, t, h, w] i ! 4)"
proof -
  from unravel5 [OF assms] obtain n ch tt' y x where
    u: "unravel [b, c, t, h, w] i = [n, ch, tt', y, x]" and
    bd: "n < b" "ch < c" "tt' < t" "y < h" "x < w" by blast
  have v: "list_all2 (<) [ch, y, x] [c, h, w]" using bd by simp
  have r: "ravel [c, h, w] [ch, y, x] < c * (h * w)" using ravel_less [OF v] by simp
  have ur: "unravel [c, h, w] (ravel [c, h, w] [ch, y, x]) = [ch, y, x]" using v by (rule unravel_ravel)
  have sel: "[n, ch, tt', y, x] ! 1 = ch" "[n, ch, tt', y, x] ! 3 = y" "[n, ch, tt', y, x] ! 4 = x"
    by (simp_all add: eval_nat_numeral)
  have sel3: "[ch, y, x] ! 0 = ch" "[ch, y, x] ! 1 = y" "[ch, y, x] ! 2 = x"
    by (simp_all add: eval_nat_numeral)
  show ?thesis
    unfolding u sel using r by (simp only: nth_map length_upt diff_zero nth_upt add_0 ur sel3)
qed

lemma perlin_step:
  assumes "shape noise = [b, c, t, h, w]" "2 \<le> c" "0 < h" "0 < w"
  shows "perlin_loop_5d orc (c, h, w) ((tt, i) # rest) (noise, self) =
           perlin_loop_5d orc (c, h, w) rest
             (noise\<lparr>vals := map (\<lambda>j. vals noise ! j +
                  (if unravel [b, c, t, h, w] j ! 2 = tt
                   then lattice_field orc (initial_seed (self_generator self)) (offset (self_generator self))
                          (c, h, w) (unravel [b, c, t, h, w] j ! 1) (unravel [b, c, t, h, w] j ! 3)
                          (unravel [b, c, t, h, w] j ! 4)
                   else 0)) [0..<prod_list [b, c, t, h, w]]\<rparr>,
              self\<lparr>self_generator := (self_generator self)
                    \<lparr>offset := offset (self_generator self) + c * ((h + 1) * (w + 1))\<rparr>\<rparr>)"
proof -
  let ?F = "lattice_field orc (initial_seed (self_generator self)) (offset (self_generator self)) (c, h, w)"
  let ?p = "map (\<lambda>k. ?F (unravel [c, h, w] k ! 0) (unravel [c, h, w] k ! 1) (unravel [c, h, w] k ! 2))
                [0..<c * (h * w)]"
  have sq: "squeeze0 [c, h, w] = [c, h, w]" using assms(2) by (simp add: squeeze0_def)
  have us: "unsqueeze 2 (unsqueeze 0 [c, h, w]) = [1, c, 1, h, w]"
    by (simp add: unsqueeze_def numeral_2_eq_2)
  have eq: "map (\<lambda>j. vals noise ! j +
                  (if unravel [b, c, t, h, w] j ! 2 = tt
                   then ?p ! ravel [c, h, w] [unravel [b, c, t, h, w] j ! 1, unravel [b, c, t, h, w] j ! 3,
                                             unravel [b, c, t, h, w] j ! 4]
                   else 0)) [0..<prod_list [b, c, t, h, w]]
          = map (\<lambda>j. vals noise ! j +
                  (if unravel [b, c, t, h, w] j ! 2 = tt
                   then ?F (unravel [b, c, t, h, w] j ! 1) (unravel [b, c, t, h, w] j ! 3)
                          (unravel [b, c, t, h, w] j ! 4)
                   else 0)) [0..<prod_list [b, c, t, h, w]]"
  proof (rule map_cong [OF refl])
    fix j assume "j \<in> set [0..<prod_list [b, c, t, h, w]]"
    then have j: "j < prod_list [b, c, t, h, w]" by simp
    show "vals noise ! j +
                  (if unravel [b, c, t, h, w] j ! 2 = tt
                   then ?p ! ravel [c, h, w] [unravel [b, c, t, h, w] j ! 1, unravel [b, c, t, h, w] j ! 3,
                                             unravel [b, c, t, h, w] j ! 4]
                   else 0)
        = vals noise ! j +
                  (if unravel [b, c, t, h, w] j ! 2 = tt
                   then ?F (unravel [b, c, t, h, w] j ! 1) (unravel [b, c, t, h, w] j ! 3)
                          (unravel [b, c, t, h, w] j ! 4)
                   else 0)"
      unfolding field_lookup [OF j, of ?F] ..
  qed
  show ?thesis
    by (simp only: perlin_loop_5d.simps Let_def prod.case sum.case perlin_noise_field [OF assms(3,4)]
          sq fst_conv snd_conv us iadd_time_slice_field [OF assms(1,2)] eq)
qed


lemma perlin_component_step:
  "(if idx ! 2 = k
    then lattice_field orc seed off (c, h, w) (idx ! 1) (idx ! 3) (idx ! 4)
         + lattice_field orc seed (off + c * ((h + 1) * (w + 1))) (c, h, w) (idx ! 1) (idx ! 3) (idx ! 4)
    else 0)
   + perlin_component orc seed (off + c * ((h + 1) * (w + 1)) + c * ((h + 1) * (w + 1))) (c, h, w) (Suc k) idx
   = perlin_component orc seed off (c, h, w) k idx"
proof -
  let ?L = "c * ((h + 1) * (w + 1))"
  consider "idx ! 2 < k" | "idx ! 2 = k" | "k < idx ! 2" by linarith
  then show ?thesis
  proof cases
    case 1
    then show ?thesis by (simp add: perlin_component_def)
  next
    case 2
    then show ?thesis by (simp add: perlin_component_def)
  next
    case 3
    then obtain d where d: "idx ! 2 - k = Suc d" "idx ! 2 - Suc k = d"
      by (metis Suc_diff_Suc)
    have a: "off + ?L + ?L + 2 * d * ?L = off + 2 * Suc d * ?L" by (simp add: algebra_simps)
    have b: "off + ?L + ?L + (2 * d + 1) * ?L = off + (2 * Suc d + 1) * ?L" by (simp add: algebra_simps)
    show ?thesis
      using 3 unfolding perlin_component_def Let_def prod.case d a b
      by simp
  qed
qed

lemma nth_map_upt0: "j < n \<Longrightarrow> map f [0..<n] ! j = f j"
  by simp

lemma perlin_two_steps:
  assumes "shape noise = [b, c, t, h, w]" "2 \<le> c" "0 < h" "0 < w"
  shows "perlin_loop_5d orc (c, h, w) ((tt, i) # (tt, i') # rest) (noise, self) =
           perlin_loop_5d orc (c, h, w) rest
             (noise\<lparr>vals := map (\<lambda>j. vals noise ! j +
                  (if unravel [b, c, t, h, w] j ! 2 = tt
                   then lattice_field orc (initial_seed (self_generator self)) (offset (self_generator self))
                          (c, h, w) (unravel [b, c, t, h, w] j ! 1) (unravel [b, c, t, h, w] j ! 3)
                          (unravel [b, c, t, h, w] j ! 4)
                        + lattice_field orc (initial_seed (self_generator self))
                            (offset (self_generator self) + c * ((h + 1) * (w + 1)))
                          (c, h, w) (unravel [b, c, t, h, w] j ! 1) (unravel [b, c, t, h, w] j ! 3)
                          (unravel [b, c, t, h, w] j ! 4)
                   else 0)) [0..<prod_list [b, c, t, h, w]]\<rparr>,
              self\<lparr>self_generator := (self_generator self)
                    \<lparr>offset := offset (self_generator self) + c * ((h + 1) * (w + 1))
                                 + c * ((h + 1) * (w + 1))\<rparr>\<rparr>)"
proof -
  let ?S = "[b, c, t, h, w]"
  let ?L = "c * ((h + 1) * (w + 1))"
  let ?g = "self_generator self"
  let ?F = "\<lambda>off j. lattice_field orc (initial_seed ?g) off (c, h, w)
                      (unravel ?S j ! 1) (unravel ?S j ! 3) (unravel ?S j ! 4)"
  let ?v1 = "map (\<lambda>j. vals noise ! j + (if unravel ?S j ! 2 = tt then ?F (offset ?g) j else 0))
               [0..<prod_list ?S]"
  let ?n1 = "noise\<lparr>vals := ?v1\<rparr>"
  let ?s1 = "self\<lparr>self_generator := ?g\<lparr>offset := offset ?g + ?L\<rparr>\<rparr>"
  have sh1: "shape ?n1 = ?S" using assms(1) by simp
  have g1: "self_generator ?s1 = ?g\<lparr>offset := offset ?g + ?L\<rparr>" by simp
  have is1: "initial_seed (self_generator ?s1) = initial_seed ?g" by simp
  have of1: "offset (self_generator ?s1) = offset ?g + ?L" by simp
  have v1: "vals ?n1 = ?v1" by simp
  have st1: "perlin_loop_5d orc (c, h, w) ((tt, i) # (tt, i') # rest) (noise, self)
               = perlin_loop_5d orc (c, h, w) ((tt, i') # rest) (?n1, ?s1)"
    by (rule perlin_step [OF assms])
  have st2: "perlin_loop_5d orc (c, h, w) ((tt, i') # rest) (?n1, ?s1)
               = perlin_loop_5d orc (c, h, w) rest
                   (?n1\<lparr>vals := map (\<lambda>j. vals ?n1 ! j +
                        (if unravel ?S j ! 2 = tt
                         then lattice_field orc (initial_seed (self_generator ?s1)) (offset (self_generator ?s1))
                                (c, h, w) (unravel ?S j ! 1) (unravel ?S j ! 3) (unravel ?S j ! 4)
                         else 0)) [0..<prod_list ?S]\<rparr>,
                    ?s1\<lparr>self_generator := (self_generator ?s1)
                          \<lparr>offset := offset (self_generator ?s1) + ?L\<rparr>\<rparr>)"
    by (rule perlin_step [OF sh1 assms(2,3,4)])
  have vs: "map (\<lambda>j. vals ?n1 ! j +
                        (if unravel ?S j ! 2 = tt
                         then lattice_field orc (initial_seed (self_generator ?s1)) (offset (self_generator ?s1))
                                (c, h, w) (unravel ?S j ! 1) (unravel ?S j ! 3) (unravel ?S j ! 4)
                         else 0)) [0..<prod_list ?S]
          = map (\<lambda>j. vals noise ! j +
                  (if unravel ?S j ! 2 = tt then ?F (offset ?g) j + ?F (offset ?g + ?L) j else 0))
              [0..<prod_list ?S]"
  proof (rule map_cong [OF refl])
    fix j assume "j \<in> set [0..<prod_list ?S]"
    then have j: "j < prod_list ?S" by (simp only: set_upt atLeastLessThan_iff)
    have n: "?v1 ! j = vals noise ! j + (if unravel ?S j ! 2 = tt then ?F (offset ?g) j else 0)"
      using j by (rule nth_map_upt0)
    show "vals ?n1 ! j +
            (if unravel ?S j ! 2 = tt
             then lattice_field orc (initial_seed (self_generator ?s1)) (offset (self_generator ?s1))
                    (c, h, w) (unravel ?S j ! 1) (unravel ?S j ! 3) (unravel ?S j ! 4)
             else 0)
          = vals noise ! j +
              (if unravel ?S j ! 2 = tt then ?F (offset ?g) j + ?F (offset ?g + ?L) j else 0)"
      unfolding v1 n is1 of1 by (simp only: if_distrib [of "\<lambda>x. _ + x"] split: if_splits) simp
  qed
  have rec: "?n1\<lparr>vals := X\<rparr> = noise\<lparr>vals := X\<rparr>" for X by simp
  have gen: "?s1\<lparr>self_generator := (self_generator ?s1)\<lparr>offset := offset (self_generator ?s1) + ?L\<rparr>\<rparr>
               = self\<lparr>self_generator := ?g\<lparr>offset := offset ?g + ?L + ?L\<rparr>\<rparr>" by simp
  show ?thesis
    unfolding st1 st2 vs rec gen ..
qed

end
